theory Spec2Isabelle
  imports Complex_Main "HOL-Library.Word"
begin

section \<open>JavaScript values used by the handlers\<close>

text \<open>
  A JavaScript string is a list of code units, here those below 256. A header, a route
  parameter and a field of the multipart body are strings that may be \<open>undefined\<close>
  (\<open>string option\<close>). \<open>truthy\<close> is JavaScript's truthiness on such a value: \<open>undefined\<close>
  and the empty string are falsy. \<open>or_js a b\<close> is \<open>a || b\<close>.
\<close>

definition truthy :: "string option \<Rightarrow> bool" where
  "truthy v = (case v of None \<Rightarrow> False | Some s \<Rightarrow> s \<noteq> [])"

definition or_js :: "string option \<Rightarrow> string option \<Rightarrow> string option" where
  "or_js a b = (if truthy a then a else b)"

text \<open>
  A query parameter is what the query parser of Express makes of the query string: a
  string, an array (\<open>?a[]=x&a[]=y\<close>) or an object (\<open>?a[k]=x\<close>). Arrays and objects are
  truthy, also when empty. The credential \<open>apiKey\<close> is modelled in this generality; the
  parameters \<open>otp\<close>, \<open>fileName\<close> and \<open>overwrite\<close> are modelled as strings.
\<close>

datatype qvalue =
    QString string
  | QArray "qvalue list"
  | QObject "(string \<times> qvalue) list"

fun truthy_q :: "qvalue option \<Rightarrow> bool" where
  "truthy_q None = False"
| "truthy_q (Some (QString s)) = (s \<noteq> [])"
| "truthy_q (Some v) = True"

text \<open>\<open>String.prototype.charAt\<close>: the empty string when the index is out of range.\<close>

definition charAt :: "string \<Rightarrow> int \<Rightarrow> string" where
  "charAt s i = (if 0 \<le> i \<and> i < int (length s) then [s ! nat i] else [])"

text \<open>\<open>Number.prototype.toString(10)\<close> and \<open>toString(16)\<close> on a non-negative integer.\<close>

definition digit_char :: "nat \<Rightarrow> char" where
  "digit_char d = ''0123456789abcdef'' ! d"

fun toString_radix :: "nat \<Rightarrow> nat \<Rightarrow> string" where
  "toString_radix r n =
     (if r < 2 \<or> n < r then [digit_char n]
      else toString_radix r (n div r) @ [digit_char (n mod r)])"

declare toString_radix.simps [simp del]

definition toString_int :: "int \<Rightarrow> string" where
  "toString_int i = (if i < 0 then CHR ''-'' # toString_radix 10 (nat (- i))
                     else toString_radix 10 (nat i))"

text \<open>\<open>String.prototype.padStart(n, c)\<close> with a one-character filler.\<close>

definition padStart :: "nat \<Rightarrow> char \<Rightarrow> string \<Rightarrow> string" where
  "padStart n c s = replicate (n - length s) c @ s"

text \<open>
  \<open>Number.prototype.toFixed(2)\<close> on a non-negative number below \<open>10^21\<close>: the integer \<open>n\<close>
  closest to \<open>100 * x\<close> (the larger one on a tie), printed with two decimals.
\<close>

definition toFixed2 :: "rat \<Rightarrow> string" where
  "toFixed2 x = (let n = nat \<lfloor>x * 100 + 1 / 2\<rfloor>
                 in toString_radix 10 (n div 100) @ ''.'' @
                    padStart 2 (CHR ''0'') (toString_radix 10 (n mod 100)))"

section \<open>Double-precision products\<close>

text \<open>
  A JavaScript number is an IEEE 754 double; its value is modelled as a rational. The
  product of two doubles is the exact product rounded to the nearest double, ties to the
  even significand. \<open>exponent q\<close> is the binary exponent of a non-negative \<open>q\<close>: the
  largest \<open>e\<close> with \<open>2^e \<le> q\<close>, searched downwards from 1023 and not below \<open>-1022\<close>, where
  the subnormal numbers begin. A double has 53 significant bits, so the doubles around
  \<open>q\<close> are the multiples of \<open>2^(e - 52)\<close>. \<open>to_double\<close> is the rounding for
  \<open>0 \<le> q < 2^1024\<close>; the products below stay far from the overflow threshold.
\<close>

fun exponent_from :: "nat \<Rightarrow> int \<Rightarrow> rat \<Rightarrow> int" where
  "exponent_from 0 e q = e"
| "exponent_from (Suc n) e q = (if 2 powi e \<le> q then e else exponent_from n (e - 1) q)"

definition exponent :: "rat \<Rightarrow> int" where
  "exponent q = exponent_from 2045 1023 q"

definition round_half_even :: "rat \<Rightarrow> int" where
  "round_half_even x =
     (let f = \<lfloor>x\<rfloor>; r = x - of_int f
      in if r < 1 / 2 then f else if 1 / 2 < r then f + 1 else if even f then f else f + 1)"

definition to_double :: "rat \<Rightarrow> rat" where
  "to_double q = (let ulp = 2 powi (exponent q - 52)
                  in of_int (round_half_even (q / ulp)) * ulp)"

text \<open>\<open>Math.floor(x * n)\<close> for a double \<open>x\<close> and an integer \<open>n\<close> below \<open>2^53\<close>.\<close>

definition floor_product :: "rat \<Rightarrow> nat \<Rightarrow> int" where
  "floor_product x n = \<lfloor>to_double (x * of_nat n)\<rfloor>"

section \<open>JSON values and \<open>JSON.stringify\<close>\<close>

datatype json =
    JNumber int
  | JString string
  | JArray "json list"
  | JObject "(string \<times> json) list"

text \<open>
  \<open>QuoteJSONString\<close> of ECMAScript on 8-bit characters: the quote and the backslash are
  escaped, control characters get their short escape or \<open>\u00XX\<close>, every other character
  is copied.
\<close>

definition escape_char :: "char \<Rightarrow> string" where
  "escape_char c =
     (if c = CHR 0x22 then [CHR 0x5C, CHR 0x22]
      else if c = CHR 0x5C then [CHR 0x5C, CHR 0x5C]
      else if c = CHR 0x08 then [CHR 0x5C, CHR ''b'']
      else if c = CHR 0x09 then [CHR 0x5C, CHR ''t'']
      else if c = CHR 0x0A then [CHR 0x5C, CHR ''n'']
      else if c = CHR 0x0C then [CHR 0x5C, CHR ''f'']
      else if c = CHR 0x0D then [CHR 0x5C, CHR ''r'']
      else if of_char c < (32::nat)
        then [CHR 0x5C, CHR ''u'', CHR ''0'', CHR ''0'',
              digit_char (of_char c div 16), digit_char (of_char c mod 16)]
      else [c])"

definition QuoteJSONString :: "string \<Rightarrow> string" where
  "QuoteJSONString s = [CHR 0x22] @ concat (map escape_char s) @ [CHR 0x22]"

text \<open>
  \<open>JSON.stringify(value, undefined, 2)\<close>, as \<open>res.json\<close> calls it under the application
  setting \<open>json spaces = 2\<close> (index.js line 11). \<open>ind\<close> is the current indentation.
\<close>

definition newline_indent :: "nat \<Rightarrow> string" where
  "newline_indent ind = CHR 0x0A # replicate ind (CHR '' '')"

fun join_with :: "string \<Rightarrow> string list \<Rightarrow> string" where
  "join_with sep [] = []"
| "join_with sep [x] = x"
| "join_with sep (x # y # ys) = x @ sep @ join_with sep (y # ys)"

fun stringify :: "nat \<Rightarrow> json \<Rightarrow> string" where
  "stringify ind (JNumber n) = toString_int n"
| "stringify ind (JString s) = QuoteJSONString s"
| "stringify ind (JArray []) = ''[]''"
| "stringify ind (JArray (x # xs)) =
     ''['' @ newline_indent (ind + 2) @
     join_with ('','' @ newline_indent (ind + 2)) (map (stringify (ind + 2)) (x # xs)) @
     newline_indent ind @ '']''"
| "stringify ind (JObject []) = ''{}''"
| "stringify ind (JObject (kv # kvs)) =
     ''{'' @ newline_indent (ind + 2) @
     join_with ('','' @ newline_indent (ind + 2))
       (map (\<lambda>(k, v). QuoteJSONString k @ '': '' @ stringify (ind + 2) v) (kv # kvs)) @
     newline_indent ind @ ''}''"

definition JSON_stringify :: "json \<Rightarrow> string" where
  "JSON_stringify v = stringify 0 v"

text \<open>
  A response: the status code and the JSON value handed to \<open>res.json\<close>. Every response of
  index.js is sent through \<open>res.json\<close>, so the bytes on the wire are \<open>sent_body\<close>.
\<close>

record response =
  status :: nat
  body :: json

definition sent_body :: "response \<Rightarrow> string" where
  "sent_body r = JSON_stringify (body r)"

definition res_json :: "nat \<Rightarrow> json \<Rightarrow> response" where
  "res_json code v = \<lparr>status = code, body = v\<rparr>"

section \<open>Errors and the error handler\<close>

text \<open>
  A thrown value or an error passed to \<open>next\<close>: its \<open>statusCode\<close> property (absent on errors
  raised by libraries and by the storage driver) and its \<open>message\<close>.
\<close>

datatype js_error = Thrown "nat option" string

text \<open>\<open>errorHandler\<close> (index.js lines 79-84); \<open>||\<close> falls back on \<open>0\<close> and on the empty string too.\<close>

fun errorHandler :: "js_error \<Rightarrow> response" where
  "errorHandler (Thrown code msg) =
     (let statusCode = (case code of None \<Rightarrow> 500 | Some c \<Rightarrow> if c = 0 then 500 else c);
          message = (if msg = [] then ''Internal Server Error'' else msg)
      in res_json statusCode (JObject [(''error'', JString message)]))"

section \<open>The two collections\<close>

text \<open>
  A stored document of \<open>fileSchema\<close> (lines 46-60) and of \<open>apiKeySchema\<close> (lines 64-75), each
  with the \<open>_id\<close> that Mongoose assigns when the document object is constructed. A collection
  is the list of its documents in insertion order; \<open>findOne\<close> returns the first match.
  \<open>next_oid\<close> is the source of fresh \<open>_id\<close> values.
\<close>

record stored_file =
  file_oid :: nat
  file_id :: string
  fileName :: string
  fileContent :: string

record apiKey =
  key_oid :: nat
  key :: string
  key_id :: string

record state =
  files :: "stored_file list"
  apiKeys :: "apiKey list"
  next_oid :: nat

text \<open>
  Why \<open>save\<close> rejects a document: a \<open>required\<close> string path that is empty (the paths are
  listed), or a value already present under a \<open>unique\<close> index (the path and the value).
\<close>

datatype storage_failure =
    ValidationError "string list"
  | DuplicateKey string string

definition required_paths :: "(string \<times> string) list \<Rightarrow> string list" where
  "required_paths kvs = map fst (filter (\<lambda>(k, v). v = []) kvs)"

text \<open>
  \<open>newFile.save()\<close>: all three paths are \<open>required\<close>, \<open>id\<close> is \<open>unique\<close>, \<open>fileName\<close> is not
  (lines 52-55).
\<close>

definition File_save :: "stored_file \<Rightarrow> stored_file list \<Rightarrow> storage_failure + stored_file list" where
  "File_save doc coll =
     (let missing = required_paths [(''id'', file_id doc), (''fileName'', fileName doc),
                                    (''fileContent'', fileContent doc)]
      in if missing \<noteq> [] then Inl (ValidationError missing)
         else if \<exists>d \<in> set coll. file_id d = file_id doc
           then Inl (DuplicateKey ''id'' (file_id doc))
         else Inr (coll @ [doc]))"

text \<open>\<open>newApiKey.save()\<close>: both paths are \<open>required\<close> and \<open>unique\<close>.\<close>

definition ApiKey_save :: "apiKey \<Rightarrow> apiKey list \<Rightarrow> storage_failure + apiKey list" where
  "ApiKey_save doc coll =
     (let missing = required_paths [(''key'', key doc), (''id'', key_id doc)]
      in if missing \<noteq> [] then Inl (ValidationError missing)
         else if \<exists>d \<in> set coll. key d = key doc then Inl (DuplicateKey ''key'' (key doc))
         else if \<exists>d \<in> set coll. key_id d = key_id doc
           then Inl (DuplicateKey ''id'' (key_id doc))
         else Inr (coll @ [doc]))"

text \<open>The filter \<open>{ $or: [{ id: identifier }, { fileName: identifier }] }\<close>.\<close>

definition matches :: "string \<Rightarrow> stored_file \<Rightarrow> bool" where
  "matches identifier d = (file_id d = identifier \<or> fileName d = identifier)"

text \<open>\<open>findOneAndUpdate\<close> changes the first match; \<open>findOneAndDelete\<close> removes the first match.\<close>

fun update_first :: "('a \<Rightarrow> bool) \<Rightarrow> ('a \<Rightarrow> 'a) \<Rightarrow> 'a list \<Rightarrow> 'a list" where
  "update_first p f [] = []"
| "update_first p f (x # xs) = (if p x then f x # xs else x # update_first p f xs)"

fun delete_first :: "('a \<Rightarrow> bool) \<Rightarrow> 'a list \<Rightarrow> 'a list" where
  "delete_first p [] = []"
| "delete_first p (x # xs) = (if p x then xs else x # delete_first p xs)"

text \<open>An \<open>ObjectId\<close> in JSON: 24 hexadecimal digits.\<close>

definition ObjectId_json :: "nat \<Rightarrow> json" where
  "ObjectId_json n = JString (padStart 24 (CHR ''0'') (toString_radix 16 n))"

section \<open>The environment of one request\<close>

text \<open>
  The OTPAuth library is not part of the repository: \<open>new OTPAuth.TOTP(params)\<close> followed by
  \<open>validate({token, timestamp})\<close> is a parameter of the model. It returns a delta (a number),
  \<open>null\<close>, or throws.
\<close>

record totp_params =
  secret :: "string option"
  digits :: nat
  period :: nat

datatype totp_result = Threw string | Null | Delta int

text \<open>Truthiness of what \<open>validate\<close> returned: \<open>null\<close> and the number \<open>0\<close> are falsy.\<close>

fun truthy_result :: "totp_result \<Rightarrow> bool" where
  "truthy_result (Delta d) = (d \<noteq> 0)"
| "truthy_result Null = False"
| "truthy_result (Threw m) = False"

text \<open>
  What a handler reads from outside the request: \<open>Math_random k\<close> is the result of the
  \<open>k\<close>-th call of \<open>Math.random()\<close> during the request (a double in \<open>[0, 1)\<close>, so at most
  \<open>1 - 2^-53\<close>), \<open>crypto_random k\<close> the \<open>k\<close>-th byte of \<open>randomBytes\<close>, \<open>Date_now\<close> the
  clock in milliseconds, \<open>process_uptime\<close> the uptime in seconds, \<open>TOTP_SECRET\<close> the
  environment variable, \<open>driver_message\<close> the message text of a storage error.
  \<open>filter_other v keys\<close> is what \<open>ApiKey.findOne({ key: v })\<close> gives on the collection
  \<open>keys\<close> for a filter value \<open>v\<close> that is neither a string nor \<open>{ $ne: string }\<close>: how
  Mongoose casts it and how the database evaluates it is not part of the repository.
\<close>

record env =
  Math_random :: "nat \<Rightarrow> rat"
  crypto_random :: "nat \<Rightarrow> 8 word"
  Date_now :: int
  Date_toISOString :: "int \<Rightarrow> string"
  process_uptime :: rat
  TOTP_SECRET :: "string option"
  totp_validate :: "totp_params \<Rightarrow> string \<Rightarrow> int \<Rightarrow> totp_result"
  driver_message :: "storage_failure \<Rightarrow> string"
  filter_other :: "qvalue \<Rightarrow> apiKey list \<Rightarrow> js_error + apiKey option"

text \<open>
  A request: the \<open>apikey\<close> header, the query parameters, the \<open>fileName\<close> field of the
  multipart body, the optional route parameter (\<open>:id?\<close> or \<open>:identifier?\<close>), and the
  multipart part named \<open>file\<close> with its media type and its content decoded as UTF-8.
\<close>

record uploaded =
  mimetype :: string
  buffer :: string

record request =
  headers_apikey :: "string option"
  query_apiKey :: "qvalue option"
  query_otp :: "string option"
  query_fileName :: "string option"
  query_overwrite :: "string option"
  body_fileName :: "string option"
  params :: "string option"
  file_part :: "uploaded option"

section \<open>Middleware\<close>

text \<open>
  \<open>req.headers.apikey || req.query.apiKey\<close> (line 87): the header is a string, the query
  parameter any parsed value.
\<close>

definition credential :: "request \<Rightarrow> qvalue option" where
  "credential req =
     (if truthy (headers_apikey req) then map_option QString (headers_apikey req)
      else query_apiKey req)"

text \<open>
  \<open>ApiKey.findOne({ key: apiKey })\<close> (line 91). A string selects the first key with that
  secret. The object \<open>{ $ne: s }\<close> is the filter operator "not equal": it selects the
  first key whose secret differs from \<open>s\<close>. The result is the key found, \<open>null\<close>, or the
  error with which the query is rejected.
\<close>

fun ne_operand :: "qvalue \<Rightarrow> string option" where
  "ne_operand (QObject [(k, QString s)]) = (if k = ''$ne'' then Some s else None)"
| "ne_operand v = None"

definition ApiKey_findOne_key :: "env \<Rightarrow> qvalue \<Rightarrow> apiKey list \<Rightarrow> js_error + apiKey option" where
  "ApiKey_findOne_key e v coll =
     (case v of
        QString s \<Rightarrow> Inr (find (\<lambda>k. key k = s) coll)
      | _ \<Rightarrow> (case ne_operand v of
                Some s \<Rightarrow> Inr (find (\<lambda>k. key k \<noteq> s) coll)
              | None \<Rightarrow> filter_other e v coll))"

text \<open>
  \<open>authenticate\<close> (lines 86-101). \<open>None\<close> means that \<open>next()\<close> was called without an error.
\<close>

definition authenticate :: "env \<Rightarrow> state \<Rightarrow> request \<Rightarrow> js_error option" where
  "authenticate e st req =
     (let apiKey = credential req
      in if \<not> truthy_q apiKey then Some (Thrown (Some 401) ''API key is required'')
         else case ApiKey_findOne_key e (the apiKey) (apiKeys st) of
                Inl err \<Rightarrow> Some err
              | Inr None \<Rightarrow> Some (Thrown (Some 401) ''Invalid API key'')
              | Inr (Some k) \<Rightarrow> None)"

text \<open>
  \<open>upload.single('file')\<close> with \<open>fileFilter\<close> (lines 34-44): \<open>req.file\<close> is the accepted part,
  \<open>undefined\<close> when the request has none; a part of another media type is an error without
  a status code.
\<close>

definition allowedMimeTypes :: "string list" where
  "allowedMimeTypes = [''application/json'', ''text/plain'', ''application/xml'', ''text/xml'',
                       ''application/x-yaml'', ''text/yaml'']"

definition upload_single :: "request \<Rightarrow> js_error + uploaded option" where
  "upload_single req =
     (case file_part req of
        None \<Rightarrow> Inr None
      | Some f \<Rightarrow>
          if mimetype f \<in> set allowedMimeTypes then Inr (Some f)
          else Inl (Thrown None ''Only JSON, TXT, XML, and YAML files are allowed''))"

section \<open>Identifier generation\<close>

definition characters :: string where
  "characters = ''ABCDEFGHIJKLMNOPQRSTUVWXYZabcdefghijklmnopqrstuvwxyz''"

text \<open>
  \<open>generateRandomId\<close> (lines 103-110). \<open>c\<close> counts the calls of \<open>Math.random()\<close> made before
  the loop; iteration \<open>i\<close> reads call \<open>c + i\<close>. The index is
  \<open>Math.floor(Math.random() * characters.length)\<close>, a product of doubles.
\<close>

function generateRandomId_loop :: "(nat \<Rightarrow> rat) \<Rightarrow> nat \<Rightarrow> nat \<Rightarrow> nat \<Rightarrow> string \<Rightarrow> string" where
  "generateRandomId_loop rnd c i len randomId =
     (if i < len
      then generateRandomId_loop rnd c (Suc i) len
             (randomId @ charAt characters (floor_product (rnd (c + i)) (length characters)))
      else randomId)"
  by pat_completeness auto
termination
  by (relation "measure (\<lambda>(rnd, c, i, len, randomId). len - i)") auto

declare generateRandomId_loop.simps [simp del]

definition generateRandomId :: "(nat \<Rightarrow> rat) \<Rightarrow> nat \<Rightarrow> nat \<Rightarrow> string" where
  "generateRandomId rnd c len = generateRandomId_loop rnd c 0 len []"

definition generateFileId :: "(nat \<Rightarrow> rat) \<Rightarrow> nat \<Rightarrow> string" where
  "generateFileId rnd c = generateRandomId rnd c 5"

text \<open>\<open>generateApiKey\<close> (lines 112-114): sixteen random bytes in hexadecimal.\<close>

definition hex_byte :: "8 word \<Rightarrow> string" where
  "hex_byte b = [digit_char (unat b div 16), digit_char (unat b mod 16)]"

definition generateApiKey :: "(nat \<Rightarrow> 8 word) \<Rightarrow> string" where
  "generateApiKey bytes = concat (map (\<lambda>k. hex_byte (bytes k)) [0..<16])"

text \<open>\<open>generateApiKeyID\<close> (lines 120-123).\<close>

definition generateApiKeyID :: "(nat \<Rightarrow> rat) \<Rightarrow> nat \<Rightarrow> string" where
  "generateApiKeyID rnd c =
     (let randomHex = toString_radix 16 (nat (floor_product (rnd c) 16777215))
      in ''0x'' @ padStart 6 (CHR ''0'') randomHex)"

section \<open>Route handlers\<close>

text \<open>
  A handler returns the error it throws or passes to \<open>next\<close> (\<open>Inl\<close>) or the response it
  sends (\<open>Inr\<close>), and the state of the collections afterwards.
\<close>

type_synonym outcome = "(js_error + response) \<times> state"

definition fail :: "nat \<Rightarrow> string \<Rightarrow> state \<Rightarrow> outcome" where
  "fail code msg st = (Inl (Thrown (Some code) msg), st)"

text \<open>The TOTP check shared by \<open>/validate\<close> and \<open>/create-key\<close> (lines 133-140, 174-181).\<close>

definition otp_timestamp :: "env \<Rightarrow> int" where
  "otp_timestamp e = Date_now e + 30000"

definition otp_check :: "env \<Rightarrow> string \<Rightarrow> totp_result" where
  "otp_check e totpToken =
     totp_validate e \<lparr>secret = TOTP_SECRET e, digits = 6, period = 30\<rparr> totpToken
       (otp_timestamp e)"

text \<open>\<open>GET /validate\<close> (lines 125-148).\<close>

definition validate_handler :: "env \<Rightarrow> state \<Rightarrow> request \<Rightarrow> outcome" where
  "validate_handler e st req =
     (let totpToken = query_otp req
      in if \<not> truthy totpToken
         then (Inr (res_json 400
                 (JObject [(''error'', JString ''OTP (One-Time Password) is required'')])), st)
         else case otp_check e (the totpToken) of
                Threw m \<Rightarrow> (Inl (Thrown None m), st)
              | isValidToken \<Rightarrow>
                  (Inr (res_json 200
                     (JObject [(''isValid'', JNumber (if truthy_result isValidToken then 1 else 0)),
                               (''timestamp'', JNumber (otp_timestamp e))])), st))"

text \<open>\<open>GET /health\<close> (lines 150-162).\<close>

definition health_status :: "rat \<Rightarrow> string" where
  "health_status uptime = (if uptime < 60 then ''healthy'' else ''degraded'')"

definition health_handler :: "env \<Rightarrow> state \<Rightarrow> request \<Rightarrow> outcome" where
  "health_handler e st req =
     (let uptime = process_uptime e;
          status = health_status uptime
      in (Inr (res_json 200
            (JObject [(''timestamp'', JNumber (Date_now e)),
                      (''date'', JString (Date_toISOString e (Date_now e))),
                      (''status'', JString status),
                      (''uptime'', JString (toFixed2 uptime @ '' seconds''))])), st))"

text \<open>\<open>POST /create-key\<close> (lines 164-197).\<close>

definition create_key_handler :: "env \<Rightarrow> state \<Rightarrow> request \<Rightarrow> outcome" where
  "create_key_handler e st req =
     (let apiKeyId = generateApiKeyID (Math_random e) 0;
          apiKey = generateApiKey (crypto_random e);
          totpToken = query_otp req
      in if \<not> truthy totpToken then fail 401 ''OTP (One-Time Password) is required'' st
         else case otp_check e (the totpToken) of
                Threw m \<Rightarrow> (Inl (Thrown None m), st)
              | isValidToken \<Rightarrow>
                  if \<not> truthy_result isValidToken
                  then fail 401 ''Invalid OTP (One-Time Password)'' st
                  else
                   (let newApiKey = \<lparr>key_oid = next_oid st, key = apiKey, key_id = apiKeyId\<rparr>;
                        st1 = st\<lparr>next_oid := Suc (next_oid st)\<rparr>
                    in case ApiKey_save newApiKey (apiKeys st) of
                         Inl f \<Rightarrow> (Inl (Thrown None (driver_message e f)), st1)
                       | Inr coll \<Rightarrow>
                           (Inr (res_json 200
                              (JArray [JObject [(''id'', JString apiKeyId),
                                                (''key'', JString apiKey),
                                                (''__v'', JNumber 0)]])),
                            st1\<lparr>apiKeys := coll\<rparr>)))"

text \<open>\<open>DELETE /delete-key/:id?\<close> (lines 199-221), after \<open>authenticate\<close>.\<close>

definition delete_key_handler :: "env \<Rightarrow> state \<Rightarrow> request \<Rightarrow> outcome" where
  "delete_key_handler e st req =
     (if \<not> truthy (params req) then fail 400 ''API Key ID is required'' st
      else case find (\<lambda>k. key_id k = the (params req)) (apiKeys st) of
             None \<Rightarrow> fail 400 ''Invalid API Key ID'' st
           | Some apiKey \<Rightarrow>
               (Inr (res_json 200 (JObject [(''message'', JString ''API key deleted successfully'')])),
                st\<lparr>apiKeys := delete_first (\<lambda>k. key_id k = the (params req)) (apiKeys st)\<rparr>))"

text \<open>
  \<open>GET /list-keys\<close> (lines 223-231), after \<open>authenticate\<close>. The projection \<open>'key id'\<close> selects
  both paths; \<open>_id\<close> comes with every projection that does not exclude it.
\<close>

definition list_keys_handler :: "env \<Rightarrow> state \<Rightarrow> request \<Rightarrow> outcome" where
  "list_keys_handler e st req =
     (Inr (res_json 200
        (JArray (map (\<lambda>k. JObject [(''_id'', ObjectId_json (key_oid k)),
                                    (''key'', JString (key k)),
                                    (''id'', JString (key_id k))]) (apiKeys st)))), st)"

text \<open>
  \<open>POST /upload\<close> (lines 233-260), after \<open>authenticate\<close> and \<open>upload.single('file')\<close>;
  \<open>req_file\<close> is \<open>req.file\<close>. \<open>generateRandomId(22)\<close> runs only when no name is given, so the
  identifier is drawn from the calls of \<open>Math.random()\<close> that follow.
\<close>

definition upload_fileName :: "env \<Rightarrow> request \<Rightarrow> string \<times> nat" where
  "upload_fileName e req =
     (let given = or_js (query_fileName req) (body_fileName req)
      in if truthy given then (the given, 0)
         else (generateRandomId (Math_random e) 0 22, 22))"

definition upload_fileId :: "env \<Rightarrow> request \<Rightarrow> string" where
  "upload_fileId e req = generateFileId (Math_random e) (snd (upload_fileName e req))"

definition upload_handler :: "env \<Rightarrow> state \<Rightarrow> request \<Rightarrow> uploaded option \<Rightarrow> outcome" where
  "upload_handler e st req req_file =
     (case req_file of
        None \<Rightarrow> fail 400 ''No file uploaded'' st
      | Some f \<Rightarrow>
         (let fileName' = fst (upload_fileName e req);
              overwrite = (query_overwrite req = Some ''true'');
              fileContent' = buffer f;
              fileId = upload_fileId e req;
              existingFile = find (\<lambda>d. fileName d = fileName') (files st)
          in if existingFile \<noteq> None \<and> \<not> overwrite then fail 409 ''File name already exists'' st
             else
               let newFile = \<lparr>file_oid = next_oid st, file_id = fileId, fileName = fileName',
                              fileContent = fileContent'\<rparr>;
                   st1 = st\<lparr>next_oid := Suc (next_oid st)\<rparr>
               in case File_save newFile (files st) of
                    Inl fl \<Rightarrow> (Inl (Thrown None (driver_message e fl)), st1)
                  | Inr coll \<Rightarrow>
                      (Inr (res_json 200 (JObject [(''id'', JString fileId)])),
                       st1\<lparr>files := coll\<rparr>)))"

text \<open>\<open>GET /raw/:identifier?\<close> (lines 262-290); no authentication.\<close>

definition raw_handler :: "env \<Rightarrow> state \<Rightarrow> request \<Rightarrow> outcome" where
  "raw_handler e st req =
     (let identifier = params req
      in if \<not> truthy identifier then fail 400 ''Identifier is required'' st
         else case find (matches (the identifier)) (files st) of
                None \<Rightarrow> fail 404 ''File not found'' st
              | Some file \<Rightarrow> (Inr (res_json 200 (JString (fileContent file))), st))"

text \<open>\<open>GET /list\<close> (lines 292-300), after \<open>authenticate\<close>; projection \<open>'id fileName'\<close>.\<close>

definition list_handler :: "env \<Rightarrow> state \<Rightarrow> request \<Rightarrow> outcome" where
  "list_handler e st req =
     (Inr (res_json 200
        (JArray (map (\<lambda>d. JObject [(''_id'', ObjectId_json (file_oid d)),
                                    (''id'', JString (file_id d)),
                                    (''fileName'', JString (fileName d))]) (files st)))), st)"

text \<open>
  \<open>PUT /edit/:identifier?\<close> (lines 302-343), after \<open>authenticate\<close> and
  \<open>upload.single('file')\<close>. \<open>findOneAndUpdate\<close> runs no validators.
\<close>

definition edit_handler :: "env \<Rightarrow> state \<Rightarrow> request \<Rightarrow> uploaded option \<Rightarrow> outcome" where
  "edit_handler e st req req_file =
     (let identifier = params req
      in if \<not> truthy identifier then fail 400 ''Identifier is required'' st
         else case req_file of
                None \<Rightarrow> fail 400 ''File is required'' st
              | Some f \<Rightarrow>
                 (let fileContent' = buffer f
                  in case find (matches (the identifier)) (files st) of
                       None \<Rightarrow> fail 404 ''File not found'' st
                     | Some file \<Rightarrow>
                         (Inr (res_json 200
                            (JObject [(''message'', JString ''File updated successfully'')])),
                          st\<lparr>files := update_first (matches (the identifier))
                                         (\<lambda>d. d\<lparr>fileContent := fileContent'\<rparr>) (files st)\<rparr>)))"

text \<open>
  \<open>DELETE /delete/:identifier?\<close> (lines 345-376), after \<open>authenticate\<close>: the first match is
  removed by its \<open>_id\<close>.
\<close>

definition delete_handler :: "env \<Rightarrow> state \<Rightarrow> request \<Rightarrow> outcome" where
  "delete_handler e st req =
     (let identifier = params req
      in if \<not> truthy identifier then fail 400 ''Identifier is required'' st
         else case find (matches (the identifier)) (files st) of
                None \<Rightarrow> fail 404 ''File not found'' st
              | Some file \<Rightarrow>
                  (Inr (res_json 200
                     (JObject [(''message'', JString ''File deleted successfully'')])),
                   st\<lparr>files := delete_first (\<lambda>d. file_oid d = file_oid file) (files st)\<rparr>))"

section \<open>Routes\<close>

datatype route =
    Validate | Health | CreateKey | DeleteKey | ListKeys
  | Upload | Raw | ListFiles | Edit | Delete

text \<open>The routes registered with \<open>authenticate\<close>, and those with \<open>upload.single('file')\<close>.\<close>

fun is_protected :: "route \<Rightarrow> bool" where
  "is_protected DeleteKey = True"
| "is_protected ListKeys = True"
| "is_protected Upload = True"
| "is_protected ListFiles = True"
| "is_protected Edit = True"
| "is_protected Delete = True"
| "is_protected r = False"

fun final_handler :: "route \<Rightarrow> env \<Rightarrow> state \<Rightarrow> request \<Rightarrow> outcome" where
  "final_handler Validate e st req = validate_handler e st req"
| "final_handler Health e st req = health_handler e st req"
| "final_handler CreateKey e st req = create_key_handler e st req"
| "final_handler DeleteKey e st req = delete_key_handler e st req"
| "final_handler ListKeys e st req = list_keys_handler e st req"
| "final_handler Raw e st req = raw_handler e st req"
| "final_handler ListFiles e st req = list_handler e st req"
| "final_handler Delete e st req = delete_handler e st req"
| "final_handler Upload e st req =
     (case upload_single req of
        Inl err \<Rightarrow> (Inl err, st)
      | Inr req_file \<Rightarrow> upload_handler e st req req_file)"
| "final_handler Edit e st req =
     (case upload_single req of
        Inl err \<Rightarrow> (Inl err, st)
      | Inr req_file \<Rightarrow> edit_handler e st req req_file)"

definition run_route :: "route \<Rightarrow> env \<Rightarrow> state \<Rightarrow> request \<Rightarrow> outcome" where
  "run_route r e st req =
     (if is_protected r
      then case authenticate e st req of
             Some err \<Rightarrow> (Inl err, st)
           | None \<Rightarrow> final_handler r e st req
      else final_handler r e st req)"

text \<open>
  One request, as the client sees it: an error reaches \<open>errorHandler\<close> (line 395).
\<close>

definition handle :: "route \<Rightarrow> env \<Rightarrow> state \<Rightarrow> request \<Rightarrow> response \<times> state" where
  "handle r e st req =
     (case run_route r e st req of
        (Inl err, st') \<Rightarrow> (errorHandler err, st')
      | (Inr res, st') \<Rightarrow> (res, st'))"

text \<open>A sequence of requests, each with its own environment.\<close>

fun run_all :: "state \<Rightarrow> (route \<times> env \<times> request) list \<Rightarrow> state" where
  "run_all st [] = st"
| "run_all st ((r, e, req) # rest) = run_all (snd (handle r e st req)) rest"

section \<open>Reading responses\<close>

text \<open>The member of a JSON object under a name, the elements of a JSON array, and the
  shape of every failure response, \<open>{error: message}\<close>.\<close>

fun field :: "string \<Rightarrow> json \<Rightarrow> json option" where
  "field k (JObject kvs) = map_of kvs k"
| "field k v = None"

fun member_names :: "json \<Rightarrow> string list" where
  "member_names (JObject kvs) = map fst kvs"
| "member_names v = []"

fun items :: "json \<Rightarrow> json list" where
  "items (JArray xs) = xs"
| "items v = []"

definition error_response :: "nat \<Rightarrow> string \<Rightarrow> response" where
  "error_response code msg = res_json code (JObject [(''error'', JString msg)])"

section \<open>A small store and some requests\<close>

text \<open>
  One key, as \<open>/create-key\<close> stores it when \<open>randomBytes\<close> and \<open>Math.random()\<close> return
  zeros, and one document, as \<open>/upload\<close> stores it under the name \<open>notes\<close> when
  \<open>Math.random()\<close> returns zeros.
\<close>

definition demo_key :: apiKey where
  "demo_key = \<lparr>key_oid = 0, key = ''00000000000000000000000000000000'', key_id = ''0x000000''\<rparr>"

definition demo_file :: stored_file where
  "demo_file = \<lparr>file_oid = 1, file_id = ''AAAAA'', fileName = ''notes'', fileContent = ''hello''\<rparr>"

definition demo_state :: state where
  "demo_state = \<lparr>files = [demo_file], apiKeys = [demo_key], next_oid = 2\<rparr>"


text \<open>
  A TOTP library for the examples. As OTPAuth does, it returns \<open>null\<close> for a token whose
  length is not the number of digits, and it compares the token with a generated code
  through \<open>crypto.timingSafeEqual\<close> on their UTF-8 encodings, which throws when the two
  byte lengths differ: a code unit from 128 on takes two bytes. The token \<open>123456\<close> is the
  code one period back (delta \<open>-1\<close>), the token \<open>654321\<close> the code of the current period
  (delta \<open>0\<close>).
\<close>

definition utf8_length :: "string \<Rightarrow> nat" where
  "utf8_length s = sum_list (map (\<lambda>c. if of_char c < (128::nat) then 1 else 2) s)"

definition demo_totp :: "totp_params \<Rightarrow> string \<Rightarrow> int \<Rightarrow> totp_result" where
  "demo_totp p tok ts =
     (if length tok \<noteq> digits p then Null
      else if utf8_length tok \<noteq> digits p
        then Threw ''Input buffers must have the same byte length''
      else if tok = ''123456'' then Delta (- 1)
      else if tok = ''654321'' then Delta 0
      else Null)"

text \<open>
  An environment whose random sources return the constant \<open>r\<close> and zero bytes, with that
  TOTP library, and where every filter value that \<open>ApiKey_findOne_key\<close> leaves open is
  rejected.
\<close>

definition demo_env :: "rat \<Rightarrow> env" where
  "demo_env r =
     \<lparr>Math_random = (\<lambda>k. r), crypto_random = (\<lambda>k. 0), Date_now = 1700000000000,
      Date_toISOString = (\<lambda>t. ''2023-11-14T22:13:20.000Z''), process_uptime = 61,
      TOTP_SECRET = Some ''JBSWY3DPEHPK3PXP'',
      totp_validate = demo_totp,
      driver_message = (\<lambda>f. case f of
                           ValidationError ps \<Rightarrow> ''validation failed''
                         | DuplicateKey p v \<Rightarrow> ''E11000 duplicate key error''),
      filter_other = (\<lambda>v coll. Inl (Thrown None ''Cast to string failed''))\<rparr>"


definition operator_request :: request where
  "operator_request =
     \<lparr>headers_apikey = None, query_apiKey = Some (QObject [(''$ne'', QString ''x'')]),
      query_otp = None, query_fileName = None, query_overwrite = None, body_fileName = None,
      params = Some ''notes'', file_part = None\<rparr>"

definition bare_request :: request where
  "bare_request =
     \<lparr>headers_apikey = None, query_apiKey = None, query_otp = None, query_fileName = None,
      query_overwrite = None, body_fileName = None, params = None, file_part = None\<rparr>"

definition keyed_request :: request where
  "keyed_request = bare_request\<lparr>headers_apikey := Some ''00000000000000000000000000000000''\<rparr>"

definition text_file :: "string \<Rightarrow> uploaded" where
  "text_file c = \<lparr>mimetype = ''text/plain'', buffer = c\<rparr>"

text \<open>An authenticated upload of content \<open>c\<close> under the name \<open>n\<close>.\<close>

definition upload_request :: "string \<Rightarrow> string \<Rightarrow> request" where
  "upload_request n c = keyed_request\<lparr>query_fileName := Some n, file_part := Some (text_file c)\<rparr>"

definition raw_request :: "string \<Rightarrow> request" where
  "raw_request identifier = bare_request\<lparr>params := Some identifier\<rparr>"

text \<open>An authenticated edit of the document \<open>identifier\<close> with the new content \<open>c\<close>.\<close>

definition edit_request :: "string \<Rightarrow> string \<Rightarrow> request" where
  "edit_request identifier c = keyed_request\<lparr>params := Some identifier, file_part := Some (text_file c)\<rparr>"

text \<open>The same upload with \<open>overwrite=true\<close>.\<close>

definition overwrite_request :: "string \<Rightarrow> string \<Rightarrow> request" where
  "overwrite_request n c = (upload_request n c)\<lparr>query_overwrite := Some ''true''\<rparr>"

text \<open>The entries of the two listings.\<close>

definition listed_keys :: "env \<Rightarrow> state \<Rightarrow> request \<Rightarrow> json list" where
  "listed_keys e st req = items (body (fst (handle ListKeys e st req)))"

definition listed_files :: "env \<Rightarrow> state \<Rightarrow> request \<Rightarrow> json list" where
  "listed_files e st req = items (body (fst (handle ListFiles e st req)))"

text \<open>The small store after a second record named \<open>n\<close> with content \<open>c\<close> and the identifier
  \<open>BBBBB\<close> has been inserted.\<close>

definition demo_state_with :: "string \<Rightarrow> string \<Rightarrow> state" where
  "demo_state_with n c =
     \<lparr>files = [demo_file, \<lparr>file_oid = 2, file_id = ''BBBBB'', fileName = n, fileContent = c\<rparr>],
      apiKeys = [demo_key], next_oid = 3\<rparr>"


section \<open>Auxiliary facts\<close>

lemma find_first_match:
  "\<forall>x \<in> set pre. \<not> p x \<Longrightarrow> p d \<Longrightarrow> find p (pre @ d # post) = Some d"
  by (induction pre) auto

lemma update_first_match:
  "\<forall>x \<in> set pre. \<not> p x \<Longrightarrow> p d \<Longrightarrow> update_first p f (pre @ d # post) = pre @ f d # post"
  by (induction pre) auto

lemma find_no_match: "\<forall>x \<in> set xs. \<not> p x \<Longrightarrow> find p xs = None"
  by (simp add: find_None_iff)

lemma find_some_match: "\<exists>x \<in> set xs. p x \<Longrightarrow> find p xs \<noteq> None"
  by (auto simp add: find_None_iff)

text \<open>Rounding to a double: the exponent found, the bounds of the result.\<close>

lemma exponent_from_props:
  "q < 2 powi (e + 1) \<Longrightarrow>
     e - int n \<le> exponent_from n e q \<and> exponent_from n e q \<le> e \<and>
     q < 2 powi (exponent_from n e q + 1) \<and>
     (2 powi (exponent_from n e q) \<le> q \<or> exponent_from n e q = e - int n)"
proof (induction n arbitrary: e)
  case 0
  then show ?case by simp
next
  case (Suc n)
  show ?case
  proof (cases "2 powi e \<le> q")
    case True
    then show ?thesis using Suc.prems by simp
  next
    case False
    then have "q < 2 powi (e - 1 + 1)" by simp
    from Suc.IH [OF this] False show ?thesis by auto
  qed
qed

lemma exponent_from_eq:
  "2 powi e \<le> q \<Longrightarrow> q < 2 powi (e + 1) \<Longrightarrow> e \<le> e0 \<Longrightarrow> e0 - e \<le> int n \<Longrightarrow>
     exponent_from n e0 q = e"
proof (induction n arbitrary: e0)
  case 0
  then show ?case by simp
next
  case (Suc n)
  show ?case
  proof (cases "e0 = e")
    case True
    then show ?thesis using Suc.prems by simp
  next
    case False
    then have lt: "e + 1 \<le> e0" using Suc.prems by simp
    have "(2::rat) powi (e + 1) \<le> 2 powi e0"
      using lt by (intro power_int_increasing) simp_all
    then have "\<not> 2 powi e0 \<le> q" using Suc.prems by simp
    moreover have "exponent_from n (e0 - 1) q = e"
      using Suc.prems lt by (intro Suc.IH) simp_all
    ultimately show ?thesis by simp
  qed
qed

lemma exponent_from_nonpos: "q \<le> 0 \<Longrightarrow> exponent_from n e q = e - int n"
proof (induction n arbitrary: e)
  case 0
  then show ?case by simp
next
  case (Suc n)
  have "(0::rat) < 2 powi e" by (simp add: zero_less_power_int)
  then have "\<not> 2 powi e \<le> q" using Suc.prems by linarith
  then show ?case using Suc.IH [OF Suc.prems] by simp
qed

lemma exponent_eq:
  assumes "2 powi e \<le> q" and "q < 2 powi (e + 1)" and "- 1022 \<le> e" and "e \<le> 1023"
  shows "exponent q = e"
  unfolding exponent_def using assms by (intro exponent_from_eq) simp_all

lemma exponent_zero: "exponent 0 = - 1022"
  by (simp add: exponent_def exponent_from_nonpos)

lemma exponent_props:
  assumes "q < 2 powi 1024"
  shows "- 1022 \<le> exponent q" and "exponent q \<le> 1023" and "q < 2 powi (exponent q + 1)"
    and "2 powi (exponent q) \<le> q \<or> exponent q = - 1022"
  using exponent_from_props [of q 1023 2045] assms by (simp_all add: exponent_def)

lemma round_half_even_lower: "\<lfloor>x\<rfloor> \<le> round_half_even x"
  by (simp add: round_half_even_def Let_def)

lemma round_half_even_upper: "round_half_even x \<le> \<lfloor>x\<rfloor> + 1"
  by (simp add: round_half_even_def Let_def)

lemma round_half_even_down: "x - of_int \<lfloor>x\<rfloor> < 1 / 2 \<Longrightarrow> round_half_even x = \<lfloor>x\<rfloor>"
  by (simp add: round_half_even_def Let_def)

lemma round_half_even_int: "round_half_even (of_int n) = n"
  by (simp add: round_half_even_def)

lemma round_half_even_below:
  assumes "x \<le> of_int N - c" and "1 / 2 < c"
  shows "round_half_even x \<le> N - 1"
proof -
  have fl: "\<lfloor>x\<rfloor> \<le> N - 1" using assms by (simp add: floor_le_iff) linarith
  show ?thesis
  proof (cases "\<lfloor>x\<rfloor> = N - 1")
    case True
    then have "x - of_int \<lfloor>x\<rfloor> < 1 / 2" using assms by simp
    then show ?thesis using round_half_even_down True by simp
  next
    case False
    then show ?thesis using fl round_half_even_upper [of x] by linarith
  qed
qed


lemma to_double_nonneg:
  assumes "0 \<le> q"
  shows "0 \<le> to_double q"
proof -
  have u: "(0::rat) < 2 powi (exponent q - 52)" by (simp add: zero_less_power_int)
  then have "0 \<le> q / 2 powi (exponent q - 52)" using assms by simp
  then have "0 \<le> \<lfloor>q / 2 powi (exponent q - 52)\<rfloor>" by simp
  then have "0 \<le> round_half_even (q / 2 powi (exponent q - 52))"
    using round_half_even_lower order_trans by blast
  then show ?thesis using u by (simp add: to_double_def Let_def)
qed

lemma to_double_le_binade:
  assumes "q < 2 powi 1024"
  shows "to_double q \<le> 2 powi (exponent q + 1)"
proof -
  let ?e = "exponent q"
  let ?u = "(2::rat) powi (?e - 52)"
  have u: "0 < ?u" by (simp add: zero_less_power_int)
  have split: "(2::rat) powi (?e + 1) = 2 ^ 53 * ?u"
    using power_int_add [of "2::rat" 53 "?e - 52"] by (simp add: algebra_simps)
  have "q < 2 ^ 53 * ?u" using exponent_props(3) [OF assms] split by simp
  then have "q / ?u < 2 ^ 53" using u by (simp add: pos_divide_less_eq)
  then have "q / ?u < of_int (2 ^ 53)" by simp
  then have "\<lfloor>q / ?u\<rfloor> < 2 ^ 53" by (simp only: floor_less_iff)
  then have "round_half_even (q / ?u) \<le> 2 ^ 53"
    using round_half_even_upper [of "q / ?u"] by linarith
  then have "(of_int (round_half_even (q / ?u)) :: rat) \<le> of_int (2 ^ 53)"
    by (simp only: of_int_le_iff)
  then have "of_int (round_half_even (q / ?u)) * ?u \<le> 2 ^ 53 * ?u"
    using u by (simp add: mult_right_mono)
  then show ?thesis unfolding split by (simp add: to_double_def Let_def)
qed


lemma to_double_times_52:
  assumes "0 \<le> x" and "x \<le> 1 - 1 / 2 ^ 53"
  shows "to_double (x * 52) < 52"
proof -
  let ?q = "x * 52"
  let ?e = "exponent ?q"
  have q_hi: "?q \<le> 52 - 13 / 2 ^ 51" using assms(2) by simp
  then have q52: "?q < 52" by (simp add: less_eq_rat_def) linarith
  have big: "?q < 2 powi 1024"
  proof -
    have "(2::rat) powi 6 \<le> 2 powi 1024" by (intro power_int_increasing) simp_all
    then show ?thesis using q52 by simp
  qed
  show ?thesis
  proof (cases "?e \<le> 4")
    case True
    have "(2::rat) powi (?e + 1) \<le> 2 powi 5"
      using True by (intro power_int_increasing) simp_all
    then have "to_double ?q \<le> 32" using to_double_le_binade [OF big] by simp
    then show ?thesis by simp
  next
    case False
    then have lo: "2 powi ?e \<le> ?q" using exponent_props(4) [OF big] by auto
    have "?e < 6"
    proof (rule ccontr)
      assume "\<not> ?e < 6"
      then have "(2::rat) powi 6 \<le> 2 powi ?e" by (intro power_int_increasing) simp_all
      then show False using lo q52 by simp
    qed
    then have e: "?e = 5" using False by simp
    have u: "(2::rat) powi (?e - 52) = 1 / 2 ^ 47"
      unfolding e by (simp add: power_int_minus field_simps)
    have "?q / (1 / 2 ^ 47) \<le> of_int (52 * 2 ^ 47) - 13 / 16"
      using q_hi by simp
    then have "round_half_even (?q / (1 / 2 ^ 47)) \<le> 52 * 2 ^ 47 - 1"
      by (rule round_half_even_below) simp
    then have "(of_int (round_half_even (?q / (1 / 2 ^ 47))) :: rat) \<le> of_int (52 * 2 ^ 47 - 1)"
      by (simp only: of_int_le_iff)
    then have "of_int (round_half_even (?q / (1 / 2 ^ 47))) * (1 / 2 ^ 47) \<le>
               (of_int (52 * 2 ^ 47 - 1) :: rat) * (1 / 2 ^ 47)"
      by (intro mult_right_mono) simp_all
    also have "\<dots> < 52" by simp
    finally show ?thesis unfolding to_double_def Let_def u .
  qed
qed

lemma to_double_exact:
  assumes "q / 2 powi (exponent q - 52) = of_int n"
  shows "to_double q = q"
proof -
  have u: "(2::rat) powi (exponent q - 52) \<noteq> 0" by simp
  have "to_double q = of_int n * 2 powi (exponent q - 52)"
    by (simp add: to_double_def Let_def assms round_half_even_int)
  also have "\<dots> = q" using assms u by (simp add: field_simps)
  finally show ?thesis .
qed

lemma to_double_0: "to_double 0 = 0"
  by (simp add: to_double_def Let_def round_half_even_def)

lemma to_double_13_8: "to_double (13 / 8) = 13 / 8"
proof -
  have e: "exponent (13 / 8) = 0" by (rule exponent_eq) simp_all
  show ?thesis
    by (rule to_double_exact [where n = "13 * 2 ^ 49"]) (simp add: e power_int_minus)
qed

lemma round_half_even_up:
  assumes "x = of_int f + r" and "1 / 2 < r" and "r < 1"
  shows "round_half_even x = f + 1"
proof -
  have fl: "\<lfloor>x\<rfloor> = f" using assms by (simp add: floor_eq_iff)
  have fr: "x - of_int f = r" using assms(1) by simp
  show ?thesis unfolding round_half_even_def Let_def fl fr using assms(2,3) by simp
qed

lemma to_double_rounds_up:
  "\<lfloor>to_double (3117876665102651 / 2 ^ 52 * 52)\<rfloor> = 36"
proof -
  define q :: rat where "q = 3117876665102651 / 2 ^ 52 * 52"
  have e: "exponent q = 5" unfolding q_def by (rule exponent_eq) simp_all
  have d: "q / 2 powi (exponent q - 52) = of_int (36 * 2 ^ 47 - 1) + 7 / 8"
    unfolding e by (simp add: q_def power_int_minus)
  have r: "round_half_even (q / 2 powi (exponent q - 52)) = 36 * 2 ^ 47 - 1 + 1"
    using d by (rule round_half_even_up) simp_all
  have "to_double q = of_int (36 * 2 ^ 47 - 1 + 1) * 2 powi (exponent q - 52)"
    unfolding to_double_def Let_def r ..
  also have "\<dots> = 36" unfolding e by (simp add: power_int_minus)
  finally show ?thesis unfolding q_def by simp
qed

lemma length_characters: "length characters = 52"
  by (simp add: characters_def)

text \<open>
  For every double in \<open>[0, 1)\<close> the index \<open>Math.floor(Math.random() * 52)\<close> is a position
  of the alphabet: the rounded product stays below 52.
\<close>

lemma charAt_random:
  assumes "0 \<le> r" and "r \<le> 1 - 1 / 2 ^ 53"
  shows "\<exists>ch \<in> set characters. charAt characters (floor_product r (length characters)) = [ch]"
proof -
  let ?i = "floor_product r (length characters)"
  have i: "?i = \<lfloor>to_double (r * 52)\<rfloor>" by (simp add: floor_product_def length_characters)
  have "0 \<le> to_double (r * 52)" using assms(1) by (intro to_double_nonneg) simp
  then have lo: "0 \<le> ?i" unfolding i by simp
  have "to_double (r * 52) < of_int 52" using to_double_times_52 [OF assms] by simp
  then have hi: "?i < 52" unfolding i by (simp only: floor_less_iff)
  have "nat ?i < 52" using lo hi by linarith
  then have "nat ?i < length characters" by (simp only: length_characters)
  then have "characters ! nat ?i \<in> set characters" by (rule nth_mem)
  moreover have "charAt characters ?i = [characters ! nat ?i]"
    using lo hi unfolding charAt_def length_characters by simp
  ultimately show ?thesis by blast
qed

lemma generateRandomId_loop_shape:
  "\<forall>k. 0 \<le> rnd k \<and> rnd k \<le> 1 - 1 / 2 ^ 53 \<Longrightarrow>
     length (generateRandomId_loop rnd c i len acc) = length acc + (len - i) \<and>
     set (generateRandomId_loop rnd c i len acc) \<subseteq> set acc \<union> set characters"
proof (induction rnd c i len acc rule: generateRandomId_loop.induct)
  case (1 rnd c i len randomId)
  show ?case
  proof (cases "i < len")
    case False
    then show ?thesis by (simp add: generateRandomId_loop.simps)
  next
    case True
    obtain ch where ch: "ch \<in> set characters"
      "charAt characters (floor_product (rnd (c + i)) (length characters)) = [ch]"
      using charAt_random "1.prems" by blast
    have step: "generateRandomId_loop rnd c i len randomId =
                generateRandomId_loop rnd c (Suc i) len (randomId @ [ch])"
      using True ch(2) by (subst generateRandomId_loop.simps) simp
    have ih: "length (generateRandomId_loop rnd c (Suc i) len (randomId @ [ch])) =
                length (randomId @ [ch]) + (len - Suc i) \<and>
              set (generateRandomId_loop rnd c (Suc i) len (randomId @ [ch]))
                \<subseteq> set (randomId @ [ch]) \<union> set characters"
      using "1.IH" [OF True] "1.prems" ch(2) by simp
    show ?thesis using ih True ch(1) unfolding step by auto
  qed
qed

lemma generateRandomId_shape:
  assumes "\<forall>k. 0 \<le> rnd k \<and> rnd k \<le> 1 - 1 / 2 ^ 53"
  shows "length (generateRandomId rnd c len) = len"
    and "set (generateRandomId rnd c len) \<subseteq> set characters"
  using generateRandomId_loop_shape [OF assms, of c 0 len "[]"]
  by (simp_all add: generateRandomId_def)

text \<open>When every call of \<open>Math.random()\<close> returns the same double, every character is the same.\<close>

lemma generateRandomId_loop_constant:
  assumes "charAt characters (floor_product r (length characters)) = [ch]"
  shows "generateRandomId_loop (\<lambda>k. r) c i len acc = acc @ replicate (len - i) ch"
proof (induction "\<lambda>k::nat. r" c i len acc rule: generateRandomId_loop.induct)
  case (1 c i len randomId)
  show ?case
  proof (cases "i < len")
    case False
    then show ?thesis by (simp add: generateRandomId_loop.simps)
  next
    case True
    then have "len - i = Suc (len - Suc i)" by simp
    then show ?thesis
      using True "1.hyps" [OF True] assms
      by (subst generateRandomId_loop.simps) (simp add: replicate_app_Cons_same)
  qed
qed

lemma floor_product_0: "floor_product 0 n = 0"
  by (simp add: floor_product_def to_double_0)

lemma floor_product_32nd: "floor_product (1 / 32) 52 = 1"
proof -
  have "to_double (1 / 32 * of_nat 52) = 13 / 8" using to_double_13_8 by simp
  then show ?thesis by (simp add: floor_product_def floor_eq_iff)
qed

text \<open>
  The double \<open>3117876665102651 / 2^52\<close>: the exact product with 52 is below 36 by
  \<open>2^-50\<close>, the rounded product is 36, and the character taken is the one at index 36.
\<close>

lemma floor_product_rounds_up: "floor_product (3117876665102651 / 2 ^ 52) 52 = 36"
  using to_double_rounds_up by (simp add: floor_product_def)

lemma handle_auth_fail:
  assumes "is_protected r" and "authenticate e st req = Some err"
  shows "handle r e st req = (errorHandler err, st)"
  using assms by (simp add: handle_def run_route_def)

lemma run_route_auth_ok:
  assumes "authenticate e st req = None"
  shows "run_route r e st req = final_handler r e st req"
  using assms by (simp add: run_route_def)

lemma authenticate_absent:
  "\<not> truthy_q (credential req) \<Longrightarrow>
     authenticate e st req = Some (Thrown (Some 401) ''API key is required'')"
  by (simp add: authenticate_def)

lemma authenticate_unknown:
  assumes "credential req = Some (QString s)" and "s \<noteq> []"
    and "\<forall>k \<in> set (apiKeys st). key k \<noteq> s"
  shows "authenticate e st req = Some (Thrown (Some 401) ''Invalid API key'')"
proof -
  have "find (\<lambda>k. key k = s) (apiKeys st) = None"
    using assms(3) by (simp add: find_None_iff)
  then show ?thesis using assms(1,2) by (simp add: authenticate_def ApiKey_findOne_key_def)
qed

text \<open>A request with the stored secret in the header passes the gate of the small store.\<close>

lemma keyed_request_passes:
  "headers_apikey req = Some ''00000000000000000000000000000000'' \<Longrightarrow>
     authenticate e demo_state req = None"
  by (simp add: authenticate_def credential_def truthy_def ApiKey_findOne_key_def
        demo_state_def demo_key_def)

section \<open>The authentication gate\<close>

text \<open>
  With a string as credential the gate does what is expected of it on every route
  registered with \<open>authenticate\<close>: a non-empty \<open>apikey\<close> header is the credential whatever
  the query says; without a credential the request ends with status 401 and the message
  \<open>API key is required\<close>; with a string that is the secret of no stored key it ends with
  status 401 and the message \<open>Invalid API key\<close>; in both failures the state is the one
  before the request.
\<close>

lemma authentication_gate_strings:
  assumes "is_protected r"
  shows "(truthy (headers_apikey req) \<longrightarrow>
            credential req = map_option QString (headers_apikey req)) \<and>
         (\<not> truthy_q (credential req) \<longrightarrow>
            handle r e st req = (error_response 401 ''API key is required'', st)) \<and>
         (credential req = Some (QString s) \<and> s \<noteq> [] \<and> (\<forall>k \<in> set (apiKeys st). key k \<noteq> s) \<longrightarrow>
            handle r e st req = (error_response 401 ''Invalid API key'', st))"
proof (intro conjI impI)
  assume "truthy (headers_apikey req)"
  then show "credential req = map_option QString (headers_apikey req)"
    by (simp add: credential_def)
next
  assume "\<not> truthy_q (credential req)"
  then show "handle r e st req = (error_response 401 ''API key is required'', st)"
    using assms by (simp add: handle_auth_fail authenticate_absent error_response_def)
next
  assume "credential req = Some (QString s) \<and> s \<noteq> [] \<and> (\<forall>k \<in> set (apiKeys st). key k \<noteq> s)"
  then show "handle r e st req = (error_response 401 ''Invalid API key'', st)"
    using assms authenticate_unknown [of req s st e]
    by (simp add: handle_auth_fail error_response_def)
qed

text \<open>
  Claim C6. The gate is meant to let through only a credential that is the secret of a
  stored key. The code hands the query parameter to the filter as it is: for the request
  \<open>DELETE /delete/notes?apiKey[$ne]=x\<close> the credential is the object \<open>{ $ne: 'x' }\<close>, which
  is the secret of no key (the only stored secret is a string, and it is not \<open>x\<close>); the
  filter selects the stored key, the gate lets the request through, and the document
  \<open>notes\<close> is deleted.
\<close>

theorem operator_credential_passes:
  "credential operator_request = Some (QObject [(''$ne'', QString ''x'')]) \<and>
   map key (apiKeys demo_state) = [''00000000000000000000000000000000''] \<and>
   authenticate (demo_env 0) demo_state operator_request = None \<and>
   files demo_state = [demo_file] \<and>
   handle Delete (demo_env 0) demo_state operator_request =
     (res_json 200 (JObject [(''message'', JString ''File deleted successfully'')]),
      demo_state\<lparr>files := []\<rparr>)"
proof -
  have c: "credential operator_request = Some (QObject [(''$ne'', QString ''x'')])"
    by (simp add: credential_def operator_request_def truthy_def)
  have a: "authenticate (demo_env 0) demo_state operator_request = None"
    by (simp add: authenticate_def c ApiKey_findOne_key_def demo_state_def demo_key_def)
  have p: "params operator_request = Some ''notes''" by (simp add: operator_request_def)
  have f: "find (matches ''notes'') (files demo_state) = Some demo_file"
    by (simp add: demo_state_def matches_def demo_file_def)
  have d: "delete_first (\<lambda>d. file_oid d = file_oid demo_file) (files demo_state) = []"
    by (simp add: demo_state_def)
  have "delete_handler (demo_env 0) demo_state operator_request =
          (Inr (res_json 200 (JObject [(''message'', JString ''File deleted successfully'')])),
           demo_state\<lparr>files := []\<rparr>)"
    by (simp add: delete_handler_def Let_def p truthy_def f d)
  then have "handle Delete (demo_env 0) demo_state operator_request =
     (res_json 200 (JObject [(''message'', JString ''File deleted successfully'')]),
      demo_state\<lparr>files := []\<rparr>)"
    by (simp add: handle_def run_route_auth_ok [OF a])
  then show ?thesis using c a by (simp add: demo_state_def demo_key_def)
qed

section \<open>Health\<close>

text \<open>
  Claim C10. The health response carries the status \<open>healthy\<close> exactly when the uptime is
  below 60 seconds and \<open>degraded\<close> exactly when it is 60 seconds or more, with status code
  200 and no change of state.
\<close>

theorem health_threshold:
  "(field ''status'' (body (fst (handle Health e st req))) = Some (JString ''healthy'')
      \<longleftrightarrow> process_uptime e < 60) \<and>
   (field ''status'' (body (fst (handle Health e st req))) = Some (JString ''degraded'')
      \<longleftrightarrow> 60 \<le> process_uptime e) \<and>
   status (fst (handle Health e st req)) = 200 \<and>
   snd (handle Health e st req) = st"
  by (auto simp add: handle_def run_route_def health_handler_def health_status_def res_json_def
        Let_def)

theorem health_threshold_witness:
  "60 \<le> process_uptime (demo_env 0) \<and>
   field ''status'' (body (fst (handle Health (demo_env 0) demo_state bare_request))) =
     Some (JString ''degraded'') \<and>
   process_uptime ((demo_env 0)\<lparr>process_uptime := 59\<rparr>) < 60 \<and>
   field ''status''
     (body (fst (handle Health ((demo_env 0)\<lparr>process_uptime := 59\<rparr>) demo_state bare_request))) =
     Some (JString ''healthy'')"
  using health_threshold [of "demo_env 0" demo_state bare_request]
    health_threshold [of "(demo_env 0)\<lparr>process_uptime := 59\<rparr>" demo_state bare_request]
  by (simp add: demo_env_def)

section \<open>Uploading\<close>

text \<open>
  Claim C3. An authenticated upload with a file part, whose name \<open>n\<close> is the name of a
  stored document and whose \<open>overwrite\<close> parameter is not the string \<open>true\<close>, ends with
  status 409 and the message \<open>File name already exists\<close>; the state after it is the state
  before it, so the existing document keeps its id, name and content and nothing is
  inserted.
\<close>

theorem upload_conflict:
  assumes auth: "authenticate e st req = None"
    and part: "upload_single req = Inr (Some f)"
    and name: "fst (upload_fileName e req) = n"
    and existing: "\<exists>d \<in> set (files st). fileName d = n"
    and overwrite: "query_overwrite req \<noteq> Some ''true''"
  shows "handle Upload e st req = (error_response 409 ''File name already exists'', st)"
proof -
  have "find (\<lambda>d. fileName d = n) (files st) \<noteq> None"
    using existing by (rule find_some_match)
  then have "upload_handler e st req (Some f) = fail 409 ''File name already exists'' st"
    using name overwrite by (simp add: upload_handler_def Let_def)
  then show ?thesis
    using part by (simp add: handle_def run_route_auth_ok [OF auth] fail_def error_response_def)
qed

theorem upload_conflict_witness:
  "authenticate (demo_env 0) demo_state (upload_request ''notes'' ''world'') = None \<and>
   upload_single (upload_request ''notes'' ''world'') = Inr (Some (text_file ''world'')) \<and>
   fst (upload_fileName (demo_env 0) (upload_request ''notes'' ''world'')) = ''notes'' \<and>
   list_ex (\<lambda>d. fileName d = ''notes'') (files demo_state) \<and>
   query_overwrite (upload_request ''notes'' ''world'') \<noteq> Some ''true'' \<and>
   handle Upload (demo_env 0) demo_state (upload_request ''notes'' ''world'') =
     (error_response 409 ''File name already exists'', demo_state)"
proof -
  have a: "authenticate e demo_state (upload_request ''notes'' ''world'') = None" for e
    by (rule keyed_request_passes)
       (simp add: credential_def or_js_def truthy_def upload_request_def keyed_request_def)
  have f: "upload_single (upload_request ''notes'' ''world'') = Inr (Some (text_file ''world''))"
    by (simp add: upload_single_def upload_request_def text_file_def allowedMimeTypes_def)
  have n: "fst (upload_fileName (demo_env 0) (upload_request ''notes'' ''world'')) = ''notes''"
    by (simp add: upload_fileName_def or_js_def truthy_def upload_request_def)
  have x: "\<exists>d \<in> set (files demo_state). fileName d = ''notes''"
    by (simp add: demo_state_def demo_file_def)
  have w: "query_overwrite (upload_request ''notes'' ''world'') \<noteq> Some ''true''"
    by (simp add: upload_request_def keyed_request_def bare_request_def)
  show ?thesis
    using upload_conflict [OF a f n x w] a f n x w by (simp add: list_ex_iff)
qed

section \<open>Editing\<close>

text \<open>
  Claim C5. An authenticated edit with an identifier and a file part: when no stored
  document has the identifier as its id or as its name, it ends with status 404 and the
  message \<open>File not found\<close> and the state is unchanged; otherwise the first document that
  matches has its content replaced by the new content, its \<open>_id\<close>, id and name stay, and
  every other document and the keys stay as they were.
\<close>

theorem edit_frame:
  assumes auth: "authenticate e st req = None"
    and ident: "truthy (params req)"
    and part: "upload_single req = Inr (Some f)"
  shows "((\<forall>d \<in> set (files st). \<not> matches (the (params req)) d) \<longrightarrow>
            handle Edit e st req = (error_response 404 ''File not found'', st)) \<and>
         (\<forall>pre d post.
            files st = pre @ d # post \<and> (\<forall>x \<in> set pre. \<not> matches (the (params req)) x) \<and>
            matches (the (params req)) d \<longrightarrow>
            handle Edit e st req =
              (res_json 200 (JObject [(''message'', JString ''File updated successfully'')]),
               st\<lparr>files := pre @ d\<lparr>fileContent := buffer f\<rparr> # post\<rparr>))"
proof (intro conjI impI allI)
  assume "\<forall>d \<in> set (files st). \<not> matches (the (params req)) d"
  then have "find (matches (the (params req))) (files st) = None"
    by (rule find_no_match)
  then have "edit_handler e st req (Some f) = fail 404 ''File not found'' st"
    using ident by (simp add: edit_handler_def Let_def)
  then show "handle Edit e st req = (error_response 404 ''File not found'', st)"
    using part by (simp add: handle_def run_route_auth_ok [OF auth] fail_def error_response_def)
next
  fix pre d post
  assume h: "files st = pre @ d # post \<and> (\<forall>x \<in> set pre. \<not> matches (the (params req)) x) \<and>
             matches (the (params req)) d"
  have found: "find (matches (the (params req))) (files st) = Some d"
    using h find_first_match [of pre "matches (the (params req))" d post] by simp
  have updated: "update_first (matches (the (params req))) (\<lambda>d. d\<lparr>fileContent := buffer f\<rparr>) (files st)
                   = pre @ d\<lparr>fileContent := buffer f\<rparr> # post"
    using h update_first_match [of pre "matches (the (params req))" d _ post] by simp
  have "edit_handler e st req (Some f) =
          (Inr (res_json 200 (JObject [(''message'', JString ''File updated successfully'')])),
           st\<lparr>files := pre @ d\<lparr>fileContent := buffer f\<rparr> # post\<rparr>)"
    using ident found updated by (simp add: edit_handler_def Let_def)
  then show "handle Edit e st req =
              (res_json 200 (JObject [(''message'', JString ''File updated successfully'')]),
               st\<lparr>files := pre @ d\<lparr>fileContent := buffer f\<rparr> # post\<rparr>)"
    using part by (simp add: handle_def run_route_auth_ok [OF auth])
qed

theorem edit_frame_witness:
  "authenticate (demo_env 0) demo_state (edit_request ''nope'' ''world'') = None \<and>
   truthy (params (edit_request ''nope'' ''world'')) \<and>
   upload_single (edit_request ''nope'' ''world'') = Inr (Some (text_file ''world'')) \<and>
   list_all (\<lambda>d. \<not> matches (the (params (edit_request ''nope'' ''world''))) d) (files demo_state) \<and>
   handle Edit (demo_env 0) demo_state (edit_request ''nope'' ''world'') =
     (error_response 404 ''File not found'', demo_state) \<and>
   authenticate (demo_env 0) demo_state (edit_request ''notes'' ''world'') = None \<and>
   truthy (params (edit_request ''notes'' ''world'')) \<and>
   upload_single (edit_request ''notes'' ''world'') = Inr (Some (text_file ''world'')) \<and>
   files demo_state = [] @ demo_file # [] \<and>
   matches (the (params (edit_request ''notes'' ''world''))) demo_file \<and>
   handle Edit (demo_env 0) demo_state (edit_request ''notes'' ''world'') =
     (res_json 200 (JObject [(''message'', JString ''File updated successfully'')]),
      demo_state\<lparr>files := [\<lparr>file_oid = 1, file_id = ''AAAAA'', fileName = ''notes'',
                               fileContent = ''world''\<rparr>]\<rparr>)"
proof -
  have a: "authenticate e demo_state (edit_request i c) = None" for e i c
    by (rule keyed_request_passes)
       (simp add: credential_def or_js_def truthy_def edit_request_def keyed_request_def)
  have t: "truthy (params (edit_request i ''world''))" if "i \<noteq> []" for i
    using that by (simp add: truthy_def edit_request_def)
  have f: "upload_single (edit_request i ''world'') = Inr (Some (text_file ''world''))" for i
    by (simp add: upload_single_def edit_request_def text_file_def allowedMimeTypes_def)
  have p: "params (edit_request i c) = Some i" for i c
    by (simp add: edit_request_def)
  have m: "\<not> matches ''nope'' demo_file" "matches ''notes'' demo_file"
    by (simp_all add: matches_def demo_file_def)
  have fs: "files demo_state = [demo_file]" by (simp add: demo_state_def)
  have b: "buffer (text_file ''world'') = ''world''" by (simp add: text_file_def)
  have d: "demo_file\<lparr>fileContent := ''world''\<rparr> =
       \<lparr>file_oid = 1, file_id = ''AAAAA'', fileName = ''notes'', fileContent = ''world''\<rparr>"
    by (simp add: demo_file_def)
  have ne: "''nope'' \<noteq> []" "''notes'' \<noteq> []" by simp_all
  note w1 = edit_frame [where st = demo_state and req = "edit_request ''nope'' ''world''"
                 and f = "text_file ''world''" and e = "demo_env 0",
                 OF a t [OF ne(1)] f, THEN conjunct1]
  note w2 = edit_frame [where st = demo_state and req = "edit_request ''notes'' ''world''"
                 and f = "text_file ''world''" and e = "demo_env 0",
                 OF a t [OF ne(2)] f, THEN conjunct2, rule_format, of "[]" demo_file "[]"]
  show ?thesis
    using w1 w2 a t [OF ne(1)] t [OF ne(2)] f by (simp add: p m fs b d list_all_iff)
qed

lemma File_save_accepts:
  assumes "file_id doc \<noteq> []" and "fileName doc \<noteq> []" and "fileContent doc \<noteq> []"
    and "\<forall>d \<in> set coll. file_id d \<noteq> file_id doc"
  shows "File_save doc coll = Inr (coll @ [doc])"
  using assms by (simp add: File_save_def required_paths_def)

lemma File_save_accepted:
  assumes "File_save doc coll = Inr coll'"
  shows "coll' = coll @ [doc] \<and> file_id doc \<noteq> [] \<and> fileName doc \<noteq> [] \<and>
         fileContent doc \<noteq> [] \<and> (\<forall>d \<in> set coll. file_id d \<noteq> file_id doc)"
  using assms by (auto simp add: File_save_def required_paths_def Let_def split: if_splits)

lemma upload_fileName_nonempty:
  assumes "\<forall>k. 0 \<le> Math_random e k \<and> Math_random e k \<le> 1 - 1 / 2 ^ 53"
  shows "fst (upload_fileName e req) \<noteq> []"
proof (cases "truthy (or_js (query_fileName req) (body_fileName req))")
  case True
  then show ?thesis
    by (auto simp add: upload_fileName_def truthy_def split: option.splits)
next
  case False
  have "length (generateRandomId (Math_random e) 0 22) = 22"
    using assms by (rule generateRandomId_shape(1))
  then have "generateRandomId (Math_random e) 0 22 \<noteq> []" by auto
  then show ?thesis using False by (simp add: upload_fileName_def)
qed

lemma upload_fileId_shape:
  assumes "\<forall>k. 0 \<le> Math_random e k \<and> Math_random e k \<le> 1 - 1 / 2 ^ 53"
  shows "length (upload_fileId e req) = 5" and "set (upload_fileId e req) \<subseteq> set characters"
  using generateRandomId_shape [OF assms, of "snd (upload_fileName e req)" 5]
  by (simp_all add: upload_fileId_def generateFileId_def)

text \<open>
  Claim C2, amended. An authenticated upload with a non-empty file part and
  \<open>overwrite=true\<close>, under a name \<open>n\<close> that a stored document already has, whose generated
  identifier is the id of no stored document: the identifier has five characters of the
  alphabet, the response is \<open>{id}\<close> with that identifier, and the collection afterwards is
  the collection before with one new record appended (the new identifier, the name \<open>n\<close>,
  the new content), so the record that had the name stays as it was. The hypotheses on
  the identifier and the content are those under which \<open>save\<close> accepts the record.
\<close>

theorem upload_overwrite_inserts:
  assumes auth: "authenticate e st req = None"
    and part: "upload_single req = Inr (Some f)"
    and ow: "query_overwrite req = Some ''true''"
    and name: "fst (upload_fileName e req) = n"
    and existing: "\<exists>d \<in> set (files st). fileName d = n"
    and rnd: "\<forall>k. 0 \<le> Math_random e k \<and> Math_random e k \<le> 1 - 1 / 2 ^ 53"
    and content: "buffer f \<noteq> []"
    and unused: "\<forall>d \<in> set (files st). file_id d \<noteq> upload_fileId e req"
  shows "length (upload_fileId e req) = 5 \<and> set (upload_fileId e req) \<subseteq> set characters \<and>
         handle Upload e st req =
           (res_json 200 (JObject [(''id'', JString (upload_fileId e req))]),
            st\<lparr>files := files st @ [\<lparr>file_oid = next_oid st, file_id = upload_fileId e req,
                                      fileName = n, fileContent = buffer f\<rparr>],
               next_oid := Suc (next_oid st)\<rparr>)"
proof -
  let ?doc = "\<lparr>file_oid = next_oid st, file_id = upload_fileId e req,
                fileName = n, fileContent = buffer f\<rparr>"
  have len: "length (upload_fileId e req) = 5" using rnd by (rule upload_fileId_shape(1))
  then have id_ne: "upload_fileId e req \<noteq> []" by auto
  have n_ne: "n \<noteq> []" using upload_fileName_nonempty [OF rnd, of req] name by simp
  have saved: "File_save ?doc (files st) = Inr (files st @ [?doc])"
    using id_ne n_ne content unused by (intro File_save_accepts) simp_all
  have "upload_handler e st req (Some f) =
          (Inr (res_json 200 (JObject [(''id'', JString (upload_fileId e req))])),
           st\<lparr>files := files st @ [?doc], next_oid := Suc (next_oid st)\<rparr>)"
    using ow name saved by (simp add: upload_handler_def Let_def)
  then have "handle Upload e st req =
          (res_json 200 (JObject [(''id'', JString (upload_fileId e req))]),
           st\<lparr>files := files st @ [?doc], next_oid := Suc (next_oid st)\<rparr>)"
    using part by (simp add: handle_def run_route_auth_ok [OF auth])
  then show ?thesis using len upload_fileId_shape(2) [OF rnd] by simp
qed

lemma demo_random:
  "\<forall>k. 0 \<le> Math_random (demo_env (1 / 32)) k \<and> Math_random (demo_env (1 / 32)) k \<le> 1 - 1 / 2 ^ 53"
  by (simp add: demo_env_def)

lemma replicate_5: "replicate 5 x = [x, x, x, x, x]"
  by (simp add: numeral_eq_Suc)

lemma generateFileId_constant:
  assumes "floor_product r 52 = int i" and "i < 52"
  shows "generateFileId (\<lambda>k. r) c =
           [characters ! i, characters ! i, characters ! i, characters ! i, characters ! i]"
proof -
  have "charAt characters (floor_product r (length characters)) = [characters ! i]"
    using assms by (simp add: length_characters charAt_def)
  then show ?thesis
    by (simp add: generateFileId_def generateRandomId_def generateRandomId_loop_constant
          replicate_5)
qed

lemma demo_fileId_A: "generateFileId (\<lambda>k. 0) c = ''AAAAA''"
proof -
  have "floor_product 0 52 = int 0" by (simp add: floor_product_0)
  from generateFileId_constant [OF this] show ?thesis by (simp add: characters_def)
qed

lemma demo_fileId_B: "generateFileId (\<lambda>k. 1 / 32) c = ''BBBBB''"
proof -
  have "floor_product (1 / 32) 52 = int 1" by (simp add: floor_product_32nd)
  from generateFileId_constant [OF this] show ?thesis by (simp add: characters_def)
qed

text \<open>At the double whose product rounds up to 36 the identifier is \<open>kkkkk\<close>.\<close>

lemma generateFileId_rounds_up:
  "generateFileId (\<lambda>k. 3117876665102651 / 2 ^ 52) c = ''kkkkk''"
proof -
  have "floor_product (3117876665102651 / 2 ^ 52) 52 = int 36"
    using floor_product_rounds_up by simp
  from generateFileId_constant [OF this] show ?thesis by (simp add: characters_def)
qed

lemma demo_passes:
  "authenticate e demo_state (upload_request n c) = None"
  "authenticate e demo_state (overwrite_request n c) = None"
  by (rule keyed_request_passes,
      simp add: credential_def or_js_def truthy_def upload_request_def overwrite_request_def
        keyed_request_def)+

lemma demo_part:
  "upload_single (upload_request n c) = Inr (Some (text_file c))"
  "upload_single (overwrite_request n c) = Inr (Some (text_file c))"
  by (simp_all add: upload_single_def upload_request_def overwrite_request_def text_file_def
        allowedMimeTypes_def)

lemma demo_name:
  "n \<noteq> [] \<Longrightarrow> upload_fileName e (upload_request n c) = (n, 0)"
  "n \<noteq> [] \<Longrightarrow> upload_fileName e (overwrite_request n c) = (n, 0)"
  by (simp_all add: upload_fileName_def or_js_def truthy_def upload_request_def
        overwrite_request_def)

lemma demo_fileId:
  "n \<noteq> [] \<Longrightarrow> upload_fileId (demo_env 0) (overwrite_request n c) = ''AAAAA''"
  "n \<noteq> [] \<Longrightarrow> upload_fileId (demo_env (1 / 32)) (overwrite_request n c) = ''BBBBB''"
  "n \<noteq> [] \<Longrightarrow> upload_fileId (demo_env (1 / 32)) (upload_request n c) = ''BBBBB''"
  by (simp_all add: upload_fileId_def demo_name demo_env_def demo_fileId_A demo_fileId_B)

lemma demo_sel:
  "files demo_state = [demo_file]" "apiKeys demo_state = [demo_key]" "next_oid demo_state = 2"
  by (simp_all add: demo_state_def)

lemma demo_driver:
  "driver_message (demo_env r) (DuplicateKey p v) = ''E11000 duplicate key error''"
  "driver_message (demo_env r) (ValidationError ps) = ''validation failed''"
  by (simp_all add: demo_env_def)

lemma demo_overwrite:
  "query_overwrite (overwrite_request n c) = Some ''true''"
  "query_overwrite (upload_request n c) = None"
  by (simp_all add: overwrite_request_def upload_request_def keyed_request_def bare_request_def)

lemma buffer_text_file: "buffer (text_file c) = c"
  by (simp add: text_file_def)

theorem upload_overwrite_inserts_witness:
  "authenticate (demo_env (1 / 32)) demo_state (overwrite_request ''notes'' ''world'') = None \<and>
   upload_single (overwrite_request ''notes'' ''world'') = Inr (Some (text_file ''world'')) \<and>
   query_overwrite (overwrite_request ''notes'' ''world'') = Some ''true'' \<and>
   fst (upload_fileName (demo_env (1 / 32)) (overwrite_request ''notes'' ''world'')) = ''notes'' \<and>
   list_ex (\<lambda>d. fileName d = ''notes'') (files demo_state) \<and>
   buffer (text_file ''world'') \<noteq> [] \<and>
   list_all (\<lambda>d. file_id d \<noteq> upload_fileId (demo_env (1 / 32)) (overwrite_request ''notes'' ''world''))
     (files demo_state) \<and>
   upload_fileId (demo_env (1 / 32)) (overwrite_request ''notes'' ''world'') = ''BBBBB'' \<and>
   handle Upload (demo_env (1 / 32)) demo_state (overwrite_request ''notes'' ''world'') =
     (res_json 200 (JObject [(''id'', JString ''BBBBB'')]),
      \<lparr>files = [demo_file, \<lparr>file_oid = 2, file_id = ''BBBBB'', fileName = ''notes'',
                              fileContent = ''world''\<rparr>],
       apiKeys = [demo_key], next_oid = 3\<rparr>)"
proof -
  let ?req = "overwrite_request ''notes'' ''world''"
  have nm: "fst (upload_fileName (demo_env (1 / 32)) ?req) = ''notes''"
    by (simp add: demo_name)
  have ex: "\<exists>d \<in> set (files demo_state). fileName d = ''notes''"
    by (simp add: demo_sel demo_file_def)
  have ct: "buffer (text_file ''world'') \<noteq> []" by (simp add: text_file_def)
  have un: "\<forall>d \<in> set (files demo_state). file_id d \<noteq> upload_fileId (demo_env (1 / 32)) ?req"
    by (simp add: demo_fileId demo_sel demo_file_def)
  have st: "demo_state\<lparr>files := files demo_state @
                [\<lparr>file_oid = next_oid demo_state, file_id = ''BBBBB'', fileName = ''notes'',
                  fileContent = ''world''\<rparr>],
              next_oid := Suc (next_oid demo_state)\<rparr> =
            \<lparr>files = [demo_file, \<lparr>file_oid = 2, file_id = ''BBBBB'', fileName = ''notes'',
                                    fileContent = ''world''\<rparr>],
             apiKeys = [demo_key], next_oid = 3\<rparr>"
    by (simp add: demo_state_def)
  have main: "handle Upload (demo_env (1 / 32)) demo_state ?req =
     (res_json 200 (JObject [(''id'', JString ''BBBBB'')]),
      demo_state\<lparr>files := files demo_state @
                [\<lparr>file_oid = next_oid demo_state, file_id = ''BBBBB'', fileName = ''notes'',
                  fileContent = ''world''\<rparr>],
              next_oid := Suc (next_oid demo_state)\<rparr>)"
    using upload_overwrite_inserts [OF demo_passes(2) demo_part(2) demo_overwrite(1) nm ex
             demo_random ct un]
    by (simp add: demo_fileId buffer_text_file)
  show ?thesis
    using main ex un unfolding st
    by (simp add: demo_passes demo_part demo_overwrite demo_name demo_fileId list_all_iff
          list_ex_iff buffer_text_file)
qed

text \<open>
  When the generated identifier is already the id of a stored document, the unique index
  on \<open>id\<close> rejects the new record: the upload with \<open>overwrite=true\<close> ends with status 500
  and inserts nothing.
\<close>

theorem upload_overwrite_collision:
  "query_overwrite (overwrite_request ''notes'' ''world'') = Some ''true'' \<and>
   map fileName (files demo_state) = [''notes''] \<and>
   upload_fileId (demo_env 0) (overwrite_request ''notes'' ''world'') = ''AAAAA'' \<and>
   handle Upload (demo_env 0) demo_state (overwrite_request ''notes'' ''world'') =
     (error_response 500 ''E11000 duplicate key error'',
      \<lparr>files = [demo_file], apiKeys = [demo_key], next_oid = 3\<rparr>)"
proof -
  let ?req = "overwrite_request ''notes'' ''world''"
  have sv: "File_save \<lparr>file_oid = 2, file_id = ''AAAAA'', fileName = ''notes'', fileContent = ''world''\<rparr>
              [demo_file] = Inl (DuplicateKey ''id'' ''AAAAA'')"
    by (simp add: File_save_def required_paths_def demo_file_def)
  have fd: "find (\<lambda>d. fileName d = ''notes'') [demo_file] = Some demo_file"
    by (simp add: demo_file_def)
  have st: "demo_state\<lparr>next_oid := Suc 2\<rparr> =
            \<lparr>files = [demo_file], apiKeys = [demo_key], next_oid = 3\<rparr>"
    by (simp add: demo_state_def)
  have "upload_handler (demo_env 0) demo_state ?req (Some (text_file ''world'')) =
        (Inl (Thrown None ''E11000 duplicate key error''), demo_state\<lparr>next_oid := Suc 2\<rparr>)"
    by (simp add: upload_handler_def Let_def demo_name demo_fileId demo_overwrite demo_sel
          buffer_text_file sv fd demo_driver)
  then have "handle Upload (demo_env 0) demo_state ?req =
        (error_response 500 ''E11000 duplicate key error'', demo_state\<lparr>next_oid := Suc 2\<rparr>)"
    by (simp add: handle_def run_route_auth_ok [OF demo_passes(2)] demo_part error_response_def)
  then show ?thesis
    unfolding st by (simp add: demo_overwrite demo_sel demo_fileId demo_file_def)
qed

section \<open>Resolving an uploaded document\<close>

text \<open>What an authenticated upload with a file part does, in all its cases.\<close>

lemma handle_upload_cases:
  assumes auth: "authenticate e st req = None"
    and part: "upload_single req = Inr (Some f)"
  shows "handle Upload e st req =
     (if find (\<lambda>d. fileName d = fst (upload_fileName e req)) (files st) \<noteq> None \<and>
         query_overwrite req \<noteq> Some ''true''
      then (error_response 409 ''File name already exists'', st)
      else case File_save \<lparr>file_oid = next_oid st, file_id = upload_fileId e req,
                             fileName = fst (upload_fileName e req), fileContent = buffer f\<rparr>
                  (files st) of
             Inl fl \<Rightarrow> (errorHandler (Thrown None (driver_message e fl)),
                        st\<lparr>next_oid := Suc (next_oid st)\<rparr>)
           | Inr coll \<Rightarrow> (res_json 200 (JObject [(''id'', JString (upload_fileId e req))]),
                          st\<lparr>files := coll, next_oid := Suc (next_oid st)\<rparr>))"
  using part
  by (simp add: handle_def run_route_auth_ok [OF auth] upload_handler_def Let_def fail_def
        error_response_def split: sum.splits)

lemma errorHandler_uncoded: "status (errorHandler (Thrown None m)) = 500"
  by (simp add: res_json_def)

lemma handle_raw_found:
  assumes "identifier \<noteq> []" and "find (matches identifier) (files st) = Some d"
  shows "handle Raw e st (raw_request identifier) = (res_json 200 (JString (fileContent d)), st)"
  using assms
  by (simp add: handle_def run_route_def raw_handler_def Let_def raw_request_def truthy_def)

text \<open>
  Claim C4, amended. After a successful authenticated upload of content \<open>c\<close> under an
  explicit name \<open>n\<close> that no stored document has, returning the id \<open>i\<close>: when moreover no
  stored document has \<open>n\<close> as its id and none has \<open>i\<close> as its name, a raw read by \<open>n\<close> and
  a raw read by \<open>i\<close> both return the content \<open>c\<close>. Resolution takes the first
  document whose id or name equals the identifier, which is why the two extra conditions
  are needed.
\<close>

theorem upload_then_resolve:
  assumes auth: "authenticate e st req = None"
    and part: "upload_single req = Inr (Some f)"
    and explicit: "truthy (or_js (query_fileName req) (body_fileName req))"
    and name: "n = the (or_js (query_fileName req) (body_fileName req))"
    and unique: "\<forall>d \<in> set (files st). fileName d \<noteq> n"
    and success: "handle Upload e st req = (res_json 200 (JObject [(''id'', JString i)]), st')"
    and no_id_n: "\<forall>d \<in> set (files st). file_id d \<noteq> n"
    and no_name_i: "\<forall>d \<in> set (files st). fileName d \<noteq> i"
  shows "handle Raw e' st' (raw_request n) = (res_json 200 (JString (buffer f)), st') \<and>
         handle Raw e' st' (raw_request i) = (res_json 200 (JString (buffer f)), st')"
proof -
  let ?doc = "\<lparr>file_oid = next_oid st, file_id = upload_fileId e req,
                fileName = fst (upload_fileName e req), fileContent = buffer f\<rparr>"
  have nm: "fst (upload_fileName e req) = n"
    using explicit name by (simp add: upload_fileName_def)
  have n_ne: "n \<noteq> []"
    using explicit name by (auto simp add: truthy_def split: option.splits)
  have no_conflict: "find (\<lambda>d. fileName d = n) (files st) = None"
    using unique by (intro find_no_match) simp
  obtain coll where saved: "File_save ?doc (files st) = Inr coll"
    and i: "i = upload_fileId e req"
    and st': "st' = st\<lparr>files := coll, next_oid := Suc (next_oid st)\<rparr>"
    using success errorHandler_uncoded
    by (cases "File_save ?doc (files st)")
       (auto simp add: handle_upload_cases [OF auth part] nm no_conflict res_json_def)
  have acc: "coll = files st @ [?doc]" "file_id ?doc \<noteq> []"
    "\<forall>d \<in> set (files st). file_id d \<noteq> file_id ?doc"
    using File_save_accepted [OF saved] by simp_all
  have i_ne: "i \<noteq> []" using acc(2) i by simp
  have files': "files st' = files st @ ?doc # []" using st' acc(1) by simp
  have by_n: "find (matches n) (files st') = Some ?doc"
    unfolding files'
    using unique no_id_n nm by (intro find_first_match) (simp_all add: matches_def)
  have by_i: "find (matches i) (files st') = Some ?doc"
    unfolding files'
    using acc(3) no_name_i i by (intro find_first_match) (simp_all add: matches_def)
  show ?thesis
    using handle_raw_found [OF n_ne by_n] handle_raw_found [OF i_ne by_i] by simp
qed

lemma demo_Math_random: "Math_random (demo_env r) = (\<lambda>k. r)"
  by (simp add: demo_env_def)

lemma demo_upload_saved:
  assumes auth: "authenticate (demo_env (1 / 32)) demo_state req = None"
    and part: "upload_single req = Inr (Some (text_file c))"
    and name: "upload_fileName (demo_env (1 / 32)) req = (n, 0)"
    and free: "n \<noteq> ''notes'' \<or> query_overwrite req = Some ''true''"
    and ne: "n \<noteq> []" "c \<noteq> []"
  shows "handle Upload (demo_env (1 / 32)) demo_state req =
           (res_json 200 (JObject [(''id'', JString ''BBBBB'')]), demo_state_with n c)"
proof -
  have fid: "upload_fileId (demo_env (1 / 32)) req = ''BBBBB''"
    by (simp add: upload_fileId_def name demo_Math_random demo_fileId_B)
  have sv: "File_save \<lparr>file_oid = 2, file_id = ''BBBBB'', fileName = n, fileContent = c\<rparr>
              [demo_file] =
            Inr [demo_file, \<lparr>file_oid = 2, file_id = ''BBBBB'', fileName = n, fileContent = c\<rparr>]"
    using ne by (simp add: File_save_def required_paths_def demo_file_def)
  have st: "demo_state\<lparr>files := [demo_file, \<lparr>file_oid = 2, file_id = ''BBBBB'', fileName = n,
                                               fileContent = c\<rparr>],
                         next_oid := 3\<rparr> = demo_state_with n c"
    by (simp add: demo_state_def demo_state_with_def)
  have cond: "\<not> (find (\<lambda>d. fileName d = fst (upload_fileName (demo_env (1 / 32)) req))
                     (files demo_state) \<noteq> None \<and>
                  query_overwrite req \<noteq> Some ''true'')"
    using free by (auto simp add: name demo_sel demo_file_def)
  have "handle Upload (demo_env (1 / 32)) demo_state req =
          (res_json 200 (JObject [(''id'', JString ''BBBBB'')]),
           demo_state\<lparr>files := [demo_file, \<lparr>file_oid = 2, file_id = ''BBBBB'', fileName = n,
                                                fileContent = c\<rparr>],
                       next_oid := 3\<rparr>)"
    unfolding handle_upload_cases [OF auth part] if_not_P [OF cond]
    by (simp add: name fid demo_sel buffer_text_file sv)
  then show ?thesis unfolding st .
qed

theorem upload_then_resolve_witness:
  "authenticate (demo_env (1 / 32)) demo_state (upload_request ''todo'' ''world'') = None \<and>
   upload_single (upload_request ''todo'' ''world'') = Inr (Some (text_file ''world'')) \<and>
   truthy (or_js (query_fileName (upload_request ''todo'' ''world''))
                 (body_fileName (upload_request ''todo'' ''world''))) \<and>
   ''todo'' = the (or_js (query_fileName (upload_request ''todo'' ''world''))
                         (body_fileName (upload_request ''todo'' ''world''))) \<and>
   list_all (\<lambda>d. fileName d \<noteq> ''todo'') (files demo_state) \<and>
   handle Upload (demo_env (1 / 32)) demo_state (upload_request ''todo'' ''world'') =
     (res_json 200 (JObject [(''id'', JString ''BBBBB'')]), demo_state_with ''todo'' ''world'') \<and>
   list_all (\<lambda>d. file_id d \<noteq> ''todo'') (files demo_state) \<and>
   list_all (\<lambda>d. fileName d \<noteq> ''BBBBB'') (files demo_state) \<and>
   handle Raw (demo_env 0) (demo_state_with ''todo'' ''world'') (raw_request ''todo'') =
     (res_json 200 (JString ''world''), demo_state_with ''todo'' ''world'') \<and>
   handle Raw (demo_env 0) (demo_state_with ''todo'' ''world'') (raw_request ''BBBBB'') =
     (res_json 200 (JString ''world''), demo_state_with ''todo'' ''world'')"
proof -
  let ?req = "upload_request ''todo'' ''world''"
  have given: "or_js (query_fileName ?req) (body_fileName ?req) = Some ''todo''"
    by (simp add: or_js_def truthy_def upload_request_def)
  have ex: "truthy (or_js (query_fileName ?req) (body_fileName ?req))"
    and nm: "''todo'' = the (or_js (query_fileName ?req) (body_fileName ?req))"
    by (simp_all add: given truthy_def)
  have un: "\<forall>d \<in> set (files demo_state). fileName d \<noteq> ''todo''"
    and ni: "\<forall>d \<in> set (files demo_state). file_id d \<noteq> ''todo''"
    and nn: "\<forall>d \<in> set (files demo_state). fileName d \<noteq> ''BBBBB''"
    by (simp_all add: demo_sel demo_file_def)
  have ok: "handle Upload (demo_env (1 / 32)) demo_state ?req =
     (res_json 200 (JObject [(''id'', JString ''BBBBB'')]), demo_state_with ''todo'' ''world'')"
    by (rule demo_upload_saved) (simp_all add: demo_passes demo_part demo_name)
  show ?thesis
    using upload_then_resolve [OF demo_passes(1) demo_part(1) ex nm un ok ni nn, of "demo_env 0"]
      ex nm ok un ni nn
    by (simp add: demo_passes demo_part buffer_text_file list_all_iff)
qed

text \<open>
  Without them the read can return another document: the name \<open>AAAAA\<close> is new as a name,
  but it is the id of the document stored first, and a raw read by \<open>AAAAA\<close> after the
  upload returns that document's content \<open>hello\<close>, not the uploaded \<open>world\<close>.
\<close>

theorem upload_then_resolve_shadowed:
  "map fileName (files demo_state) = [''notes''] \<and>
   handle Upload (demo_env (1 / 32)) demo_state (upload_request ''AAAAA'' ''world'') =
     (res_json 200 (JObject [(''id'', JString ''BBBBB'')]), demo_state_with ''AAAAA'' ''world'') \<and>
   handle Raw (demo_env 0) (demo_state_with ''AAAAA'' ''world'') (raw_request ''AAAAA'') =
     (res_json 200 (JString ''hello''), demo_state_with ''AAAAA'' ''world'')"
proof -
  have ok: "handle Upload (demo_env (1 / 32)) demo_state (upload_request ''AAAAA'' ''world'') =
     (res_json 200 (JObject [(''id'', JString ''BBBBB'')]), demo_state_with ''AAAAA'' ''world'')"
    by (rule demo_upload_saved) (simp_all add: demo_passes demo_part demo_name)
  have "find (matches ''AAAAA'') (files (demo_state_with ''AAAAA'' ''world'')) = Some demo_file"
    by (simp add: demo_state_with_def matches_def demo_file_def)
  then have "handle Raw (demo_env 0) (demo_state_with ''AAAAA'' ''world'') (raw_request ''AAAAA'') =
     (res_json 200 (JString (fileContent demo_file)), demo_state_with ''AAAAA'' ''world'')"
    by (intro handle_raw_found) simp_all
  then show ?thesis using ok by (simp add: demo_sel demo_file_def)
qed

section \<open>Names after an overwriting upload\<close>

text \<open>
  Claim C1. The collection is meant to hold at most one document per name. The code does
  not keep this: from a store with one document named \<open>notes\<close>, one upload of the name
  \<open>notes\<close> with \<open>overwrite=true\<close> leaves two documents named \<open>notes\<close>, and a raw read by
  that name still returns the content of the older one.
\<close>

theorem overwrite_duplicates_name:
  "map fileName (files demo_state) = [''notes''] \<and>
   map fileName
     (files (run_all demo_state
               [(Upload, demo_env (1 / 32), overwrite_request ''notes'' ''world'')])) =
     [''notes'', ''notes''] \<and>
   handle Raw (demo_env 0)
     (run_all demo_state [(Upload, demo_env (1 / 32), overwrite_request ''notes'' ''world'')])
     (raw_request ''notes'') =
     (res_json 200 (JString ''hello''), demo_state_with ''notes'' ''world'')"
proof -
  have ok: "handle Upload (demo_env (1 / 32)) demo_state (overwrite_request ''notes'' ''world'') =
     (res_json 200 (JObject [(''id'', JString ''BBBBB'')]), demo_state_with ''notes'' ''world'')"
    by (rule demo_upload_saved) (simp_all add: demo_passes demo_part demo_name demo_overwrite)
  then have run: "run_all demo_state
                    [(Upload, demo_env (1 / 32), overwrite_request ''notes'' ''world'')] =
                  demo_state_with ''notes'' ''world''"
    by simp
  have "find (matches ''notes'') (files (demo_state_with ''notes'' ''world'')) = Some demo_file"
    by (simp add: demo_state_with_def matches_def demo_file_def)
  then have "handle Raw (demo_env 0) (demo_state_with ''notes'' ''world'') (raw_request ''notes'') =
     (res_json 200 (JString (fileContent demo_file)), demo_state_with ''notes'' ''world'')"
    by (intro handle_raw_found) simp_all
  then show ?thesis
    unfolding run by (simp add: demo_sel demo_file_def demo_state_with_def)
qed

section \<open>Raw read\<close>

text \<open>
  Claim C9. A raw read is meant to return the stored text as the response body. The code
  sends it through \<open>res.json\<close>: for the stored content \<open>hello\<close> (5 characters) the body
  sent is the JSON string literal, the content between two double quotes (7 characters).
\<close>

theorem raw_read_is_json_encoded:
  "fileContent demo_file = ''hello'' \<and>
   handle Raw (demo_env 0) demo_state (raw_request ''notes'') =
     (res_json 200 (JString ''hello''), demo_state) \<and>
   sent_body (fst (handle Raw (demo_env 0) demo_state (raw_request ''notes''))) =
     [CHR 0x22, CHR ''h'', CHR ''e'', CHR ''l'', CHR ''l'', CHR ''o'', CHR 0x22] \<and>
   sent_body (fst (handle Raw (demo_env 0) demo_state (raw_request ''notes''))) \<noteq> ''hello''"
proof -
  have "find (matches ''notes'') (files demo_state) = Some demo_file"
    by (simp add: demo_sel matches_def demo_file_def)
  then have raw: "handle Raw (demo_env 0) demo_state (raw_request ''notes'') =
     (res_json 200 (JString (fileContent demo_file)), demo_state)"
    by (intro handle_raw_found) simp_all
  show ?thesis
    unfolding raw
    by (simp add: demo_file_def sent_body_def JSON_stringify_def QuoteJSONString_def
          escape_char_def res_json_def)
qed

section \<open>Listings\<close>

lemma handle_list_keys:
  assumes "authenticate e st req = None"
  shows "handle ListKeys e st req =
           (res_json 200
              (JArray (map (\<lambda>k. JObject [(''_id'', ObjectId_json (key_oid k)),
                                          (''key'', JString (key k)),
                                          (''id'', JString (key_id k))]) (apiKeys st))), st)"
  by (simp add: handle_def run_route_auth_ok [OF assms] list_keys_handler_def)

lemma handle_list_files:
  assumes "authenticate e st req = None"
  shows "handle ListFiles e st req =
           (res_json 200
              (JArray (map (\<lambda>d. JObject [(''_id'', ObjectId_json (file_oid d)),
                                          (''id'', JString (file_id d)),
                                          (''fileName'', JString (fileName d))]) (files st))), st)"
  by (simp add: handle_def run_route_auth_ok [OF assms] list_handler_def)

text \<open>
  Claim C8, amended. For an authenticated caller and every state: each entry of the key
  listing has exactly the members \<open>_id\<close>, \<open>key\<close> and \<open>id\<close>, where \<open>key\<close> is the secret of
  the key; each entry of the document listing has exactly the members \<open>_id\<close>, \<open>id\<close> and
  \<open>fileName\<close>, so it has no \<open>fileContent\<close> member. Neither listing changes the state.
\<close>

theorem listings_fields:
  assumes "authenticate e st req = None"
  shows "map member_names (listed_keys e st req) = map (\<lambda>k. [''_id'', ''key'', ''id'']) (apiKeys st) \<and>
         map (field ''key'') (listed_keys e st req) = map (\<lambda>k. Some (JString (key k))) (apiKeys st) \<and>
         map (field ''id'') (listed_keys e st req) = map (\<lambda>k. Some (JString (key_id k))) (apiKeys st) \<and>
         map member_names (listed_files e st req) =
           map (\<lambda>d. [''_id'', ''id'', ''fileName'']) (files st) \<and>
         map (field ''id'') (listed_files e st req) = map (\<lambda>d. Some (JString (file_id d))) (files st) \<and>
         map (field ''fileName'') (listed_files e st req) =
           map (\<lambda>d. Some (JString (fileName d))) (files st) \<and>
         map (field ''fileContent'') (listed_files e st req) = map (\<lambda>d. None) (files st) \<and>
         snd (handle ListKeys e st req) = st \<and> snd (handle ListFiles e st req) = st"
  by (simp add: listed_keys_def listed_files_def handle_list_keys [OF assms]
        handle_list_files [OF assms] res_json_def comp_def)

theorem listings_fields_witness:
  "authenticate (demo_env 0) demo_state keyed_request = None \<and>
   map member_names (listed_keys (demo_env 0) demo_state keyed_request) = [[''_id'', ''key'', ''id'']] \<and>
   map member_names (listed_files (demo_env 0) demo_state keyed_request) =
     [[''_id'', ''id'', ''fileName'']] \<and>
   map (field ''fileName'') (listed_files (demo_env 0) demo_state keyed_request) =
     [Some (JString ''notes'')] \<and>
   map (field ''fileContent'') (listed_files (demo_env 0) demo_state keyed_request) = [None]"
proof -
  have a: "authenticate e demo_state keyed_request = None" for e
    by (rule keyed_request_passes)
       (simp add: credential_def or_js_def truthy_def keyed_request_def)
  show ?thesis
    using listings_fields [OF a, of "demo_env 0"] a by (simp add: demo_sel demo_file_def)
qed

text \<open>
  The key listing does carry the secret: in the small store the only entry has the
  member \<open>key\<close> with the secret of the stored key.
\<close>

theorem key_listing_shows_secret:
  "key demo_key = ''00000000000000000000000000000000'' \<and>
   map (field ''key'') (listed_keys (demo_env 0) demo_state keyed_request) =
     [Some (JString ''00000000000000000000000000000000'')]"
proof -
  have a: "authenticate e demo_state keyed_request = None" for e
    by (rule keyed_request_passes)
       (simp add: credential_def or_js_def truthy_def keyed_request_def)
  show ?thesis
    by (simp add: listed_keys_def handle_list_keys [OF a] res_json_def demo_sel demo_key_def)
qed

section \<open>One-time passwords\<close>












text \<open>
  The key identifier at the double \<open>2563466684233113 / 2^52\<close>: the exact product with
  \<open>0xffffff\<close> is below 9549657, the rounded product is 9549657, in hexadecimal \<open>91b759\<close>.
\<close>

lemma generateApiKeyID_rounds_up:
  "generateApiKeyID (\<lambda>k. 2563466684233113 / 2 ^ 52) 0 = ''0x91b759''"
proof -
  define q :: rat where "q = 2563466684233113 / 2 ^ 52 * 16777215"
  have e: "exponent q = 23" unfolding q_def by (rule exponent_eq) simp_all
  have d: "q / 2 powi (exponent q - 52) = of_int (9549657 * 2 ^ 29 - 1) + 6589031 / 8388608"
    unfolding e by (simp add: q_def power_int_minus)
  have r: "round_half_even (q / 2 powi (exponent q - 52)) = 9549657 * 2 ^ 29 - 1 + 1"
    using d by (rule round_half_even_up) simp_all
  have "to_double q = of_int (9549657 * 2 ^ 29 - 1 + 1) * 2 powi (exponent q - 52)"
    unfolding to_double_def Let_def r ..
  also have "\<dots> = 9549657" unfolding e by (simp add: power_int_minus)
  finally have "floor_product (2563466684233113 / 2 ^ 52) 16777215 = 9549657"
    unfolding q_def by (simp add: floor_product_def)
  moreover have "toString_radix 16 9549657 = ''91b759''"
    by (simp add: toString_radix.simps digit_char_def)
  ultimately show ?thesis
    by (simp add: generateApiKeyID_def padStart_def)
qed

end
